theory Spec2Isabelle
  imports Complex_Main "HOL-Library.AList"
begin

section \<open>Common Python notions\<close>

text \<open>
  A Python \<^verbatim>\<open>str\<close> is a \<^typ>\<open>string\<close>; each \<^typ>\<open>char\<close> stands for one code point
  below 256 (all model names of the registry are ASCII).  Every exception the modelled code
  can raise is a constructor of \<open>error\<close>; a function that may raise returns
  \<open>error + 'a\<close> with \<open>Inl\<close> for the exception.
\<close>

datatype error =
    KeyError string
  | ValueError string
  | UnboundLocalError string
  | BaseExceptionRaised string
  | AttributeError string
  | ValidationError string
  | LLMResponseCompletionError string
  | LLMResponseParseError string
  | MessagesNotProvidedError string
  | InvalidMessageError string
  | ToolsNotSupportedError string
  | ReasoningEffortNotSupportedError string
  | StructuredOutputNotSupportedError string

text \<open>The apostrophe used inside the f-strings of the source.\<close>

definition apostrophe :: string where
  "apostrophe = [CHR 0x27]"

text \<open>\<^verbatim>\<open>d[k]\<close> on a dictionary kept as an association list: a missing key raises KeyError.\<close>

definition getitem :: "(string \<times> 'v) list \<Rightarrow> string \<Rightarrow> error + 'v" where
  "getitem d k = (case map_of d k of None \<Rightarrow> Inl (KeyError k) | Some v \<Rightarrow> Inr v)"

text \<open>\<^verbatim>\<open>s.lstrip("-")\<close>, \<^verbatim>\<open>s.split("-")\<close> and the substring test \<^verbatim>\<open>a in b\<close> on strings.\<close>

definition lstrip_char :: "char \<Rightarrow> string \<Rightarrow> string" where
  "lstrip_char c s = dropWhile (\<lambda>x. x = c) s"

fun split_char :: "char \<Rightarrow> string \<Rightarrow> string list" where
  "split_char c [] = [[]]"
| "split_char c (x # xs) =
     (if x = c then [] # split_char c xs
      else (case split_char c xs of
              [] \<Rightarrow> [[x]]
            | p # ps \<Rightarrow> (x # p) # ps))"

fun startswith :: "string \<Rightarrow> string \<Rightarrow> bool" where
  "startswith s [] = True"
| "startswith [] (p # ps) = False"
| "startswith (x # xs) (p # ps) = (x = p \<and> startswith xs ps)"

fun str_contains :: "string \<Rightarrow> string \<Rightarrow> bool" where
  "str_contains [] sub = (sub = [])"
| "str_contains (x # xs) sub = (startswith (x # xs) sub \<or> str_contains xs sub)"

subsection \<open>The built-in \<^verbatim>\<open>int(str)\<close>\<close>

text \<open>
  \<^verbatim>\<open>int(s)\<close> in base ten: surrounding whitespace is dropped (tab, line feed, vertical
  tab, form feed, carriage return, space, next line, no-break space), one sign is allowed,
  then decimal digits follow, where single underscores may separate digits.  More than
  4300 digits are refused (the interpreter's default limit).  \<open>None\<close> stands for
  ValueError.
\<close>

definition digit_val :: "char \<Rightarrow> int option" where
  "digit_val =
     map_of [(CHR ''0'', 0), (CHR ''1'', 1), (CHR ''2'', 2), (CHR ''3'', 3), (CHR ''4'', 4),
             (CHR ''5'', 5), (CHR ''6'', 6), (CHR ''7'', 7), (CHR ''8'', 8), (CHR ''9'', 9)]"

definition int_space :: "char \<Rightarrow> bool" where
  "int_space c \<longleftrightarrow>
     c \<in> set [CHR 0x09, CHR 0x0A, CHR 0x0B, CHR 0x0C, CHR 0x0D, CHR 0x20, CHR 0x85, CHR 0xA0]"

definition strip_space :: "string \<Rightarrow> string" where
  "strip_space s = rev (dropWhile int_space (rev (dropWhile int_space s)))"

text \<open>
  \<open>digits acc prev s\<close> reads the digit string \<open>s\<close>; \<open>acc\<close> is the value read so far and
  \<open>prev\<close> tells whether the previous character was a digit (an underscore is legal only
  between two digits).
\<close>

fun digits :: "int \<Rightarrow> bool \<Rightarrow> string \<Rightarrow> int option" where
  "digits acc prev [] = (if prev then Some acc else None)"
| "digits acc prev (c # cs) =
     (if c = CHR ''_'' then (if prev \<and> cs \<noteq> [] then digits acc False cs else None)
      else (case digit_val c of
              None \<Rightarrow> None
            | Some d \<Rightarrow> digits (10 * acc + d) True cs))"

definition py_int :: "string \<Rightarrow> int option" where
  "py_int s =
     (let t = strip_space s;
          (neg, body) = (case t of
                           [] \<Rightarrow> (False, [])
                         | c # cs \<Rightarrow> if c = CHR ''-'' then (True, cs)
                                     else if c = CHR ''+'' then (False, cs)
                                     else (False, t))
      in if length (filter (\<lambda>c. c \<noteq> CHR ''_'') body) > 4300 then None
         else (case digits 0 False body of
                 None \<Rightarrow> None
               | Some n \<Rightarrow> Some (if neg then - n else n)))"

section \<open>Model registry (typing/models.py)\<close>

text \<open>
  A model definition is a dictionary with string keys; its values have three shapes.
  \<open>MODEL_DEFINITIONS\<close> is the generated table, key for key; each entry is named
  after its alias.
\<close>

datatype defval =
    DStr string
  | DIds "string list"
  | DPricing "(string \<times> real) list"

type_synonym model_definition = "(string \<times> defval) list"

definition zero_pricing :: defval where
  "zero_pricing = DPricing [(''prompt_tokens'', 0), (''cached_prompt_tokens'', 0),
                            (''output_tokens'', 0), (''per_million'', 1000000)]"

definition claude_3_5_sonnet_definition :: model_definition where
  "claude_3_5_sonnet_definition =
     [(''provider'', DStr ''anthropic''),
      (''model_ids'', DIds [''claude-3-5-sonnet-20241022'']),
      (''pricing'', zero_pricing),
      (''most_recent_model'', DStr ''claude-3-5-sonnet-20241022'')]"

definition claude_3_haiku_definition :: model_definition where
  "claude_3_haiku_definition =
     [(''provider'', DStr ''anthropic''),
      (''model_ids'', DIds [''claude-3-5-haiku-20241022'']),
      (''pricing'', zero_pricing),
      (''most_recent_model'', DStr ''claude-3-5-haiku-20241022'')]"

definition claude_3_opus_definition :: model_definition where
  "claude_3_opus_definition =
     [(''provider'', DStr ''anthropic''),
      (''model_ids'', DIds [''claude-3-opus-20240229'']),
      (''pricing'', zero_pricing),
      (''most_recent_model'', DStr ''claude-3-opus-20240229'')]"

definition gpt_4o_definition :: model_definition where
  "gpt_4o_definition =
     [(''provider'', DStr ''openai''),
      (''model_ids'', DIds [''gpt-4o-01-15-24'', ''gpt-4o-12-17-24'', ''gpt-4o-01-10-24'']),
      (''pricing'', DPricing [(''prompt_tokens'', 2.5), (''cached_prompt_tokens'', 1.25),
                              (''output_tokens'', 10), (''per_million'', 1000000)]),
      (''most_recent_model'', DStr ''gpt-4o-12-17-24'')]"

definition o1_definition :: model_definition where
  "o1_definition =
     [(''provider'', DStr ''openai''),
      (''model_ids'', DIds [''o1-01-15-24'', ''o1-12-17-24'', ''o1-01-10-24'']),
      (''pricing'', DPricing [(''prompt_tokens'', 15), (''cached_prompt_tokens'', 7.5),
                              (''output_tokens'', 60), (''per_million'', 1000000)]),
      (''most_recent_model'', DStr ''o1-12-17-24'')]"

definition o1_mini_definition :: model_definition where
  "o1_mini_definition =
     [(''provider'', DStr ''openai''),
      (''model_ids'', DIds [''o1-mini-01-15-24'', ''o1-mini-12-17-24'', ''o1-mini-01-10-24'']),
      (''pricing'', DPricing [(''prompt_tokens'', 3.0), (''cached_prompt_tokens'', 1.5),
                              (''output_tokens'', 12), (''per_million'', 1000000)]),
      (''most_recent_model'', DStr ''o1-mini-12-17-24'')]"

definition o3_mini_definition :: model_definition where
  "o3_mini_definition =
     [(''provider'', DStr ''openai''),
      (''model_ids'', DIds [''o3-mini-2025-01-31'']),
      (''pricing'', zero_pricing),
      (''most_recent_model'', DStr ''o3-mini-2025-01-31'')]"

definition MODEL_DEFINITIONS :: "(string \<times> model_definition) list" where
  "MODEL_DEFINITIONS =
    [(''claude-3-5-sonnet'', claude_3_5_sonnet_definition),
     (''claude-3-haiku'', claude_3_haiku_definition),
     (''claude-3-opus'', claude_3_opus_definition),
     (''gpt-4o'', gpt_4o_definition),
     (''o1'', o1_definition),
     (''o1-mini'', o1_mini_definition),
     (''o3-mini'', o3_mini_definition)]"

section \<open>Version resolver (utils/model_mapping.py)\<close>

text \<open>
  \<open>extract_date\<close>: the alias prefix is cut off by length, leading hyphens are stripped and
  the rest is split at hyphens.  Three parts are read as month, day, year; one part of
  eight characters as \<^verbatim>\<open>YYYYMMDD\<close>.  Every failure gives \<open>(0, 0, 0)\<close>.
\<close>

definition extract_date :: "string \<Rightarrow> string \<Rightarrow> int \<times> int \<times> int" where
  "extract_date model alias =
     (let rest = lstrip_char CHR ''-'' (drop (length alias) model);
          parts = split_char CHR ''-'' rest
      in if length parts = 3 then
           (case py_int (parts ! 0) of
              None \<Rightarrow> (0, 0, 0)
            | Some month \<Rightarrow>
               (case py_int (parts ! 1) of
                  None \<Rightarrow> (0, 0, 0)
                | Some day \<Rightarrow>
                   (case py_int (parts ! 2) of
                      None \<Rightarrow> (0, 0, 0)
                    | Some year \<Rightarrow> (if year < 100 then year + 2000 else year, month, day))))
         else if length parts = 1 \<and> length (parts ! 0) = 8 then
           (let full_date = parts ! 0 in
            case py_int (take 4 full_date) of
              None \<Rightarrow> (0, 0, 0)
            | Some year \<Rightarrow>
               (case py_int (take 2 (drop 4 full_date)) of
                  None \<Rightarrow> (0, 0, 0)
                | Some month \<Rightarrow>
                   (case py_int (take 2 (drop 6 full_date)) of
                      None \<Rightarrow> (0, 0, 0)
                    | Some day \<Rightarrow> (year, month, day))))
         else (0, 0, 0))"

text \<open>Python compares tuples lexicographically.\<close>

definition date_le :: "int \<times> int \<times> int \<Rightarrow> int \<times> int \<times> int \<Rightarrow> bool" where
  "date_le a b =
     (case (a, b) of
        ((y1, m1, d1), (y2, m2, d2)) \<Rightarrow>
          y1 < y2 \<or> (y1 = y2 \<and> (m1 < m2 \<or> (m1 = m2 \<and> d1 \<le> d2))))"

text \<open>\<^verbatim>\<open>x in v\<close> for the three shapes of value a definition holds.\<close>

fun py_in :: "string \<Rightarrow> defval \<Rightarrow> bool" where
  "py_in x (DStr s) = str_contains s x"
| "py_in x (DIds ids) = (x \<in> set ids)"
| "py_in x (DPricing p) = (x \<in> set (map fst p))"

text \<open>
  The loop of \<open>resolve_model_name\<close> over \<^verbatim>\<open>MODEL_DEFINITIONS.items()\<close>: each round reads
  \<^verbatim>\<open>definition["model_names"]\<close>; when the loop ends without a hit, ValueError is raised.
\<close>

fun resolve_loop :: "string \<Rightarrow> (string \<times> model_definition) list \<Rightarrow> error + defval" where
  "resolve_loop inp [] =
     Inl (ValueError (''Model '' @ apostrophe @ inp @ apostrophe @ '' not found in available models.''))"
| "resolve_loop inp ((alias, definition) # rest) =
     (case getitem definition ''model_names'' of
        Inl e \<Rightarrow> Inl e
      | Inr names \<Rightarrow> if py_in inp names then Inr (DStr inp) else resolve_loop inp rest)"

definition resolve_model_name :: "string \<Rightarrow> error + defval" where
  "resolve_model_name inp =
     (if inp \<in> set (map fst MODEL_DEFINITIONS) then
        (case getitem MODEL_DEFINITIONS inp of
           Inl e \<Rightarrow> Inl e
         | Inr definition \<Rightarrow> getitem definition ''most_recent_model'')
      else resolve_loop inp MODEL_DEFINITIONS)"

section \<open>Supported-model tables (constants/supported_models.py)\<close>

definition FUNCTION_CALL_SUPPORTED_MODELS :: "string list" where
  "FUNCTION_CALL_SUPPORTED_MODELS =
     [''claude-3-5-haiku-20241022'', ''claude-3-5-sonnet'', ''claude-3-5-sonnet-20241022'',
      ''claude-3-haiku'', ''claude-3-opus'', ''claude-3-opus-20240229'', ''gpt-4o'',
      ''gpt-4o-01-10-24'', ''gpt-4o-01-15-24'', ''gpt-4o-12-17-24'', ''o1'', ''o1-01-10-24'',
      ''o1-01-15-24'', ''o1-12-17-24'', ''o1-mini'', ''o1-mini-01-10-24'',
      ''o1-mini-01-15-24'', ''o1-mini-12-17-24'', ''o3-mini'', ''o3-mini-2025-01-31'']"

definition SYSTEM_MESSAGE_SUPPORTED_MODELS :: "string list" where
  "SYSTEM_MESSAGE_SUPPORTED_MODELS =
     [''claude-3-5-sonnet'', ''claude-3-5-sonnet-20241022'', ''claude-3-opus'',
      ''claude-3-opus-20240229'', ''gpt-4o'', ''gpt-4o-01-10-24'', ''gpt-4o-01-15-24'',
      ''gpt-4o-12-17-24'']"

definition DEVELOPER_MESSAGE_SUPPORTED_MODELS :: "string list" where
  "DEVELOPER_MESSAGE_SUPPORTED_MODELS =
     [''o1'', ''o1-01-10-24'', ''o1-01-15-24'', ''o1-12-17-24'', ''o3-mini'',
      ''o3-mini-2025-01-31'']"

definition ONLY_USER_MESSAGE_SUPPORTED_MODELS :: "string list" where
  "ONLY_USER_MESSAGE_SUPPORTED_MODELS =
     [''claude-3-5-haiku-20241022'', ''claude-3-haiku'', ''o1-mini'', ''o1-mini-01-10-24'',
      ''o1-mini-01-15-24'', ''o1-mini-12-17-24'']"

section \<open>Message normalizer (BaseLLMClient._set_messages)\<close>

text \<open>
  A message carries a role and either a text or an image reference, as the two message
  classes read by \<^verbatim>\<open>to_openai_format_messages\<close> do.  The argument of the normalizer is
  absent (\<^verbatim>\<open>None\<close>), one message, or a sequence of messages; a \<^verbatim>\<open>MessageList\<close>, whose
  class is not among the sources, counts as a sequence, as in the data model of the spec.
\<close>

datatype content = Text string | Image string string

datatype message = TextMessage string string | ImageMessage string string string

fun role :: "message \<Rightarrow> string" where
  "role (TextMessage r t) = r"
| "role (ImageMessage r u d) = r"

fun message_content :: "message \<Rightarrow> content" where
  "message_content (TextMessage r t) = Text t"
| "message_content (ImageMessage r u d) = Image u d"

fun set_role :: "string \<Rightarrow> message \<Rightarrow> message" where
  "set_role r (TextMessage r0 t) = TextMessage r t"
| "set_role r (ImageMessage r0 u d) = ImageMessage r u d"

datatype messages_arg = NoMessages | OneMessage message | MessageSeq "message list"

text \<open>\<^verbatim>\<open>not messages\<close>: \<^verbatim>\<open>None\<close> and the empty sequence are falsy, a message object is not.\<close>

fun no_messages :: "messages_arg \<Rightarrow> bool" where
  "no_messages NoMessages = True"
| "no_messages (OneMessage m) = False"
| "no_messages (MessageSeq ms) = (ms = [])"

text \<open>
  Modelled from the spec: \<^verbatim>\<open>handle_no_messages\<close> of \<^verbatim>\<open>astral_ai.clients.utils\<close>, a module
  that is not among the sources.  The spec: empty or absent input must raise the
  no-messages error naming the model.  The flag \<open>init_call\<close> is passed as the source
  passes it; the spec gives it no effect.
\<close>

definition handle_no_messages :: "string \<Rightarrow> bool \<Rightarrow> error + message list" where
  "handle_no_messages model_name init_call = Inl (MessagesNotProvidedError model_name)"

text \<open>
  Modelled from the spec: \<^verbatim>\<open>standardize_messages\<close> of the same missing module.  The spec:
  a single message is coerced into a one-element ordered sequence.
\<close>

fun standardize_messages :: "messages_arg \<Rightarrow> message list" where
  "standardize_messages NoMessages = []"
| "standardize_messages (OneMessage m) = [m]"
| "standardize_messages (MessageSeq ms) = ms"

text \<open>
  Modelled from the spec: \<^verbatim>\<open>count_message_roles\<close> of the same missing module.  The spec:
  count system-role and developer-role messages across the sequence.
\<close>

definition count_message_roles :: "message list \<Rightarrow> nat \<times> nat" where
  "count_message_roles ms =
     (length (filter (\<lambda>m. role m = ''system'') ms),
      length (filter (\<lambda>m. role m = ''developer'') ms))"

text \<open>
  Modelled from the spec: \<^verbatim>\<open>convert_message_roles\<close> of the same missing module.  The spec:
  the instruction message (system or developer role) has its role rewritten to the target;
  order, count and every other field stay.  The source calls it for its effect on
  \<open>messages\<close>; here it returns the rewritten sequence.
\<close>

definition convert_message_roles :: "message list \<Rightarrow> string \<Rightarrow> string \<Rightarrow> message list" where
  "convert_message_roles ms target model_name =
     map (\<lambda>m. if role m = ''system'' \<or> role m = ''developer'' then set_role target m else m) ms"

definition set_messages :: "string \<Rightarrow> messages_arg \<Rightarrow> bool \<Rightarrow> error + message list" where
  "set_messages model_name messages init_call =
     (if no_messages messages then handle_no_messages model_name init_call
      else
        let msgs = standardize_messages messages;
            (system_count, developer_count) = count_message_roles msgs
        in if system_count > 1 then
             Inl (InvalidMessageError
               ''Invalid message role provided. More than one system message provided.'')
           else if developer_count > 1 then
             Inl (InvalidMessageError
               ''Invalid message role provided. More than one developer message provided.'')
           else if system_count \<ge> 1 \<and> developer_count \<ge> 1 then
             Inl (InvalidMessageError
               ''Invalid message role provided. Both system and developer messages provided.'')
           else if system_count > 0 then
             (if model_name \<in> set DEVELOPER_MESSAGE_SUPPORTED_MODELS then
                Inr (convert_message_roles msgs ''developer'' model_name)
              else if model_name \<in> set ONLY_USER_MESSAGE_SUPPORTED_MODELS then
                Inr (convert_message_roles msgs ''user'' model_name)
              else Inr msgs)
           else if developer_count > 0 then
             (if model_name \<in> set SYSTEM_MESSAGE_SUPPORTED_MODELS then
                Inr (convert_message_roles msgs ''system'' model_name)
              else if model_name \<in> set ONLY_USER_MESSAGE_SUPPORTED_MODELS then
                Inr (convert_message_roles msgs ''user'' model_name)
              else Inr msgs)
           else Inr msgs)"

section \<open>Capability gate for tools (BaseLLMClient._set_tools)\<close>

text \<open>
  A tool entry is any object; the gate only asks which attributes it has and prints it in
  the error message.  The argument is \<^verbatim>\<open>None\<close>, a list of entries, or something that is
  not a list.
\<close>

record tool_entry =
  shown :: string
  attrs :: "string list"

datatype tools_arg = NoTools | NotAList | ToolList "tool_entry list"

definition hasattr :: "tool_entry \<Rightarrow> string \<Rightarrow> bool" where
  "hasattr tool a \<longleftrightarrow> a \<in> set (attrs tool)"

text \<open>The loop over the entries stops at the first one without a name or a description.\<close>

fun validate_each_tool :: "tool_entry list \<Rightarrow> error option" where
  "validate_each_tool [] = None"
| "validate_each_tool (tool # rest) =
     (if \<not> hasattr tool ''name'' \<or> \<not> hasattr tool ''description'' then
        Some (ValueError (''Tool '' @ shown tool @ '' missing required attributes ''
                @ apostrophe @ ''name'' @ apostrophe @ '' and ''
                @ apostrophe @ ''description'' @ apostrophe))
      else validate_each_tool rest)"

text \<open>
  \<open>own_model_name\<close> is the client's own model; \<^verbatim>\<open>model_name or self.model_name\<close> falls
  back to it when the argument is the empty string.
\<close>

definition set_tools :: "string \<Rightarrow> tools_arg \<Rightarrow> string \<Rightarrow> error + tools_arg" where
  "set_tools own_model_name tools model_name0 =
     (let model_name = (if model_name0 = [] then own_model_name else model_name0)
      in if tools = NoTools then Inr NoTools
         else if model_name \<notin> set FUNCTION_CALL_SUPPORTED_MODELS then
           Inl (ToolsNotSupportedError model_name)
         else (case tools of
                 ToolList ts \<Rightarrow>
                   (case validate_each_tool ts of
                      Some e \<Rightarrow> Inl e
                    | None \<Rightarrow> Inr tools)
               | _ \<Rightarrow> Inl (ValueError ''Tools must be provided as a list'')))"

section \<open>Dispatcher (OpenAILLMClient._call_api_*)\<close>

text \<open>
  The provider's answer: a list of choices, each with its message, and the reported token
  counts.  \<open>content\<close> and \<open>parsed\<close> are \<open>None\<close> when the attribute is missing or is
  \<^verbatim>\<open>None\<close> (\<^verbatim>\<open>getattr(message, "content", None)\<close>).  The transport returns a response
  or raises: \<open>Raised\<close> is an exception that \<^verbatim>\<open>except Exception\<close> catches (kept as its
  printed text), \<open>RaisedBase\<close> one that it does not catch (KeyboardInterrupt, SystemExit,
  a cancellation), which passes through as \<open>BaseExceptionRaised\<close>.
\<close>

record prompt_tokens_details =
  cached_tokens :: "int option"

record completion_usage =
  prompt_tokens :: int
  prompt_tokens_details :: "prompt_tokens_details option"
  completion_tokens :: int
  total_tokens :: int

record 'p completion_message =
  content :: "string option"
  parsed :: "'p option"

record 'p response =
  choices :: "'p completion_message list"
  usage :: "completion_usage option"

datatype 'r transport_result = Raised string | RaisedBase string | Returned 'r

text \<open>
  Truthiness of the two message attributes: \<^verbatim>\<open>None\<close> and the empty string are falsy; the
  truthiness of a parsed payload is that of its class, the parameter \<open>payload_truthy\<close>.
\<close>

definition content_truthy :: "string option \<Rightarrow> bool" where
  "content_truthy c \<longleftrightarrow> (case c of None \<Rightarrow> False | Some t \<Rightarrow> t \<noteq> [])"

definition parsed_truthy :: "('p \<Rightarrow> bool) \<Rightarrow> 'p option \<Rightarrow> bool" where
  "parsed_truthy payload_truthy x \<longleftrightarrow> (case x of None \<Rightarrow> False | Some v \<Rightarrow> payload_truthy v)"

text \<open>
  The four undecorated method bodies.  \<open>prepared\<close> is the outcome of
  \<^verbatim>\<open>_prepare_params_for_provider\<close>, which runs before the \<^verbatim>\<open>try\<close> block and whose
  exceptions pass through; \<open>transport\<close> is the provider call.

  In \<open>call_api_sync\<close> both checks after the \<^verbatim>\<open>try\<close> block format \<^verbatim>\<open>{e}\<close> into their
  message.  The name \<^verbatim>\<open>e\<close> is local to the function and is bound only inside the
  \<^verbatim>\<open>except\<close> clause, which was not entered when a response came back: evaluating the
  f-string raises UnboundLocalError before the intended exception is built.
\<close>

definition call_api_sync ::
  "error + 'q \<Rightarrow> ('q \<Rightarrow> 'p response transport_result) \<Rightarrow> error + 'p response" where
  "call_api_sync prepared transport =
     (case prepared of
        Inl err \<Rightarrow> Inl err
      | Inr openai_params \<Rightarrow>
         (case transport openai_params of
            Raised e \<Rightarrow>
              Inl (LLMResponseCompletionError (''Error during OpenAI API synchronous call: '' @ e))
          | RaisedBase b \<Rightarrow> Inl (BaseExceptionRaised b)
          | Returned response \<Rightarrow>
             (case choices response of
                [] \<Rightarrow> Inl (UnboundLocalError ''e'')
              | choice # _ \<Rightarrow>
                  if \<not> content_truthy (content choice) then Inl (UnboundLocalError ''e'')
                  else Inr response)))"

definition call_api_async ::
  "error + 'q \<Rightarrow> ('q \<Rightarrow> 'p response transport_result) \<Rightarrow> error + 'p response" where
  "call_api_async prepared transport =
     (case prepared of
        Inl err \<Rightarrow> Inl err
      | Inr openai_params \<Rightarrow>
         (case transport openai_params of
            Raised e \<Rightarrow>
              Inl (LLMResponseCompletionError ''Error during OpenAI API asynchronous call'')
          | RaisedBase b \<Rightarrow> Inl (BaseExceptionRaised b)
          | Returned response \<Rightarrow>
             (case choices response of
                [] \<Rightarrow> Inl (LLMResponseCompletionError ''LLM returned no choices in async response'')
              | choice # _ \<Rightarrow>
                  if \<not> content_truthy (content choice) then
                    Inl (LLMResponseCompletionError ''LLM returned no valid async response'')
                  else Inr response)))"

definition call_api_structured ::
  "('p \<Rightarrow> bool) \<Rightarrow> error + 'q \<Rightarrow> ('q \<Rightarrow> 'p response transport_result)
     \<Rightarrow> error + 'p response" where
  "call_api_structured payload_truthy prepared transport =
     (case prepared of
        Inl err \<Rightarrow> Inl err
      | Inr openai_params \<Rightarrow>
         (case transport openai_params of
            Raised e \<Rightarrow>
              Inl (LLMResponseCompletionError ''Error during OpenAI structured synchronous call'')
          | RaisedBase b \<Rightarrow> Inl (BaseExceptionRaised b)
          | Returned response \<Rightarrow>
             (case choices response of
                [] \<Rightarrow> Inl (LLMResponseParseError ''LLM returned no choices in structured response'')
              | choice # _ \<Rightarrow>
                  if \<not> parsed_truthy payload_truthy (parsed choice) then
                    Inl (LLMResponseParseError ''LLM returned no valid structured response'')
                  else Inr response)))"

definition call_api_structured_async ::
  "('p \<Rightarrow> bool) \<Rightarrow> error + 'q \<Rightarrow> ('q \<Rightarrow> 'p response transport_result)
     \<Rightarrow> error + 'p response" where
  "call_api_structured_async payload_truthy prepared transport =
     (case prepared of
        Inl err \<Rightarrow> Inl err
      | Inr openai_params \<Rightarrow>
         (case transport openai_params of
            Raised e \<Rightarrow>
              Inl (LLMResponseCompletionError ''Error during OpenAI structured asynchronous call'')
          | RaisedBase b \<Rightarrow> Inl (BaseExceptionRaised b)
          | Returned response \<Rightarrow>
             (case choices response of
                [] \<Rightarrow> Inl (LLMResponseParseError ''LLM returned no choices in structured response'')
              | choice # _ \<Rightarrow>
                  if \<not> parsed_truthy payload_truthy (parsed choice) then
                    Inl (LLMResponseParseError ''LLM returned no valid structured response'')
                  else Inr response)))"

section \<open>Usage and cost accountant (clients/decorators/usage.py)\<close>

text \<open>
  \<open>AIUsage\<close> holds the four token counts and the latency.  The two readings of
  \<^verbatim>\<open>time.monotonic()\<close> are parameters.  \<open>track_model_cost\<close> belongs to
  \<^verbatim>\<open>astral_ai.utils.usage_utils\<close>, which is not among the sources; it is a parameter that
  maps a model name and a usage to a cost.
\<close>

record AIUsage =
  usage_prompt_tokens :: int
  usage_cached_prompt_tokens :: "int option"
  usage_completion_tokens :: int
  usage_total_tokens :: int
  latency :: real

text \<open>
  The constructor call \<^verbatim>\<open>AIUsage(prompt_tokens=response.usage.prompt_tokens, ...)\<close>: reading
  an attribute of \<^verbatim>\<open>None\<close> raises AttributeError.
\<close>

definition build_usage :: "'p response \<Rightarrow> real \<Rightarrow> error + AIUsage" where
  "build_usage response lat =
     (case usage response of
        None \<Rightarrow> Inl (AttributeError ''prompt_tokens'')
      | Some u \<Rightarrow>
         (case prompt_tokens_details u of
            None \<Rightarrow> Inl (AttributeError ''cached_tokens'')
          | Some d \<Rightarrow>
              Inr \<lparr> usage_prompt_tokens = prompt_tokens u,
                    usage_cached_prompt_tokens = cached_tokens d,
                    usage_completion_tokens = completion_tokens u,
                    usage_total_tokens = total_tokens u,
                    latency = lat \<rparr>))"

definition process_response ::
  "(string \<Rightarrow> AIUsage \<Rightarrow> 'c) \<Rightarrow> real \<Rightarrow> 'p response \<Rightarrow> real \<Rightarrow> string \<Rightarrow> bool \<Rightarrow> bool
     \<Rightarrow> error + ('p response \<times> AIUsage option \<times> 'c option)" where
  "process_response track_model_cost end_time response start_time model_name ret_usage ret_cost =
     (let lat = end_time - start_time
      in if \<not> (ret_usage \<or> ret_cost) then Inr (response, None, None)
         else
           (case (if ret_usage then map_sum id Some (build_usage response lat) else Inr None) of
              Inl err \<Rightarrow> Inl err
            | Inr usage_value \<Rightarrow>
                if ret_cost then
                  (case (case usage_value of
                           Some u \<Rightarrow> Inr u
                         | None \<Rightarrow> build_usage response lat) of
                     Inl err \<Rightarrow> Inl err
                   | Inr u \<Rightarrow> Inr (response, usage_value, Some (track_model_cost model_name u)))
                else Inr (response, usage_value, None)))"

text \<open>
  The wrapper (the same for the synchronous and the asynchronous case): \<open>kw_model_name\<close>,
  \<open>kw_return_usage\<close> and \<open>kw_return_cost\<close> are the keyword arguments of the call, \<open>None\<close>
  when not passed; \<open>func\<close> is the outcome of the decorated function.
\<close>

definition wrapper ::
  "(string \<Rightarrow> AIUsage \<Rightarrow> 'c) \<Rightarrow> real \<Rightarrow> real \<Rightarrow> string option \<Rightarrow> bool option \<Rightarrow> bool option
     \<Rightarrow> error + 'p response \<Rightarrow> error + ('p response \<times> AIUsage option \<times> 'c option)" where
  "wrapper track_model_cost start_time end_time kw_model_name kw_return_usage kw_return_cost func =
     (case kw_model_name of
        None \<Rightarrow>
          Inl (ValueError (''The decorated function must be called with a '' @ apostrophe
                 @ ''model_name'' @ apostrophe @ '' keyword argument.''))
      | Some model_name \<Rightarrow>
         (case func of
            Inl err \<Rightarrow> Inl err
          | Inr response \<Rightarrow>
              process_response track_model_cost end_time response start_time model_name
                (case kw_return_usage of None \<Rightarrow> False | Some b \<Rightarrow> b)
                (case kw_return_cost of None \<Rightarrow> False | Some b \<Rightarrow> b)))"

section \<open>Client state and parameter merging (BaseLLMClient)\<close>

text \<open>
  Keyword arguments and client defaults are dynamically typed, and lists and dictionaries
  are shared mutable objects.  A value is \<^verbatim>\<open>None\<close>, a boolean, an integer, a string, or a
  reference into the store; the store is the list of all objects, an address being an
  index into it.  Allocation appends.
\<close>

type_synonym addr = nat

datatype val = VNone | VBool bool | VInt int | VStr string | VRef addr

type_synonym dict = "(string \<times> val) list"

datatype obj = OList "val list" | ODict dict | OObject dict

type_synonym store = "obj list"

definition lookup :: "store \<Rightarrow> addr \<Rightarrow> obj option" where
  "lookup h a = (if a < length h then Some (h ! a) else None)"

definition alloc :: "store \<Rightarrow> obj \<Rightarrow> addr \<times> store" where
  "alloc h ob = (length h, h @ [ob])"

definition store_set :: "store \<Rightarrow> addr \<Rightarrow> obj \<Rightarrow> store" where
  "store_set h a ob = h[a := ob]"

text \<open>
  \<open>list_at h v\<close> is the content of \<open>v\<close> when \<^verbatim>\<open>isinstance(v, list)\<close>, \<open>dict_at h v\<close> when
  \<^verbatim>\<open>isinstance(v, dict)\<close>.
\<close>

definition list_at :: "store \<Rightarrow> val \<Rightarrow> val list option" where
  "list_at h v =
     (case v of
        VRef a \<Rightarrow> (case lookup h a of Some (OList xs) \<Rightarrow> Some xs | _ \<Rightarrow> None)
      | _ \<Rightarrow> None)"

definition dict_at :: "store \<Rightarrow> val \<Rightarrow> dict option" where
  "dict_at h v =
     (case v of
        VRef a \<Rightarrow> (case lookup h a of Some (ODict d) \<Rightarrow> Some d | _ \<Rightarrow> None)
      | _ \<Rightarrow> None)"

text \<open>Truthiness of a value: empty containers, zero, the empty string and \<^verbatim>\<open>None\<close> are falsy.\<close>

definition truthy :: "store \<Rightarrow> val \<Rightarrow> bool" where
  "truthy h v =
     (case v of
        VNone \<Rightarrow> False
      | VBool b \<Rightarrow> b
      | VInt n \<Rightarrow> n \<noteq> 0
      | VStr t \<Rightarrow> t \<noteq> []
      | VRef a \<Rightarrow> (case lookup h a of
                     Some (OList xs) \<Rightarrow> xs \<noteq> []
                   | Some (ODict d) \<Rightarrow> d \<noteq> []
                   | _ \<Rightarrow> True))"

text \<open>\<^verbatim>\<open>d.get(k)\<close> with the default \<^verbatim>\<open>None\<close>, and \<^verbatim>\<open>d.update(other)\<close>, entry by entry.\<close>

definition dict_get :: "dict \<Rightarrow> string \<Rightarrow> val" where
  "dict_get d k = (case map_of d k of None \<Rightarrow> VNone | Some v \<Rightarrow> v)"

definition dict_update :: "dict \<Rightarrow> dict \<Rightarrow> dict" where
  "dict_update d other = fold (\<lambda>kv acc. AList.update (fst kv) (snd kv) acc) other d"

text \<open>
  The attributes of a client.  \<open>self_client\<close> is the transport handle, whose type is left
  open; \<open>init_client\<close>, the abstract \<^verbatim>\<open>_init_client\<close>, builds one or raises.
\<close>

record 'h client =
  self_model_name :: val
  self_messages :: val
  self_reasoning_effort :: val
  self_tools :: val
  self_tool_choice :: val
  self_user :: val
  self_use_async :: bool
  self_client :: 'h

definition validate_client ::
  "(bool \<Rightarrow> error + 'h) \<Rightarrow> 'h client \<Rightarrow> bool \<Rightarrow> error option \<times> 'h client" where
  "validate_client init_client self use_async =
     (if use_async \<and> \<not> self_use_async self then
        (case init_client True of
           Inl err \<Rightarrow> (Some err, self)
         | Inr c \<Rightarrow> (None, self\<lparr>self_client := c, self_use_async := True\<rparr>))
      else if \<not> use_async \<and> self_use_async self then
        (case init_client False of
           Inl err \<Rightarrow> (Some err, self)
         | Inr c \<Rightarrow> (None, self\<lparr>self_client := c, self_use_async := False\<rparr>))
      else (None, self))"

text \<open>
  \<open>BaseLLMCallParams\<close> (clients/types.py) declares seven fields and no configuration, so
  the constructor keeps the seven declared keys and drops every other keyword.  The type
  validation of the seven values is the parameter \<open>valid\<close>; accepted values are stored as
  they are passed (the constructor rebuilds a list value and turns a dictionary into an
  object of the declared class: the contents agree, and the objects inside a list are
  the ones passed).
\<close>

record BaseLLMCallParams =
  params_messages :: val
  params_model :: val
  params_user :: val
  params_tools :: val
  params_tool_choice :: val
  params_reasoning_effort :: val
  params_structured_model :: val

definition model_fields :: "string list" where
  "model_fields = [''messages'', ''model'', ''user'', ''tools'', ''tool_choice'',
                   ''reasoning_effort'', ''structured_model'']"

definition new_BaseLLMCallParams ::
  "(store \<Rightarrow> BaseLLMCallParams \<Rightarrow> bool) \<Rightarrow> store \<Rightarrow> dict \<Rightarrow> error + BaseLLMCallParams" where
  "new_BaseLLMCallParams valid h kwargs =
     (if \<not> set model_fields \<subseteq> set (map fst kwargs) then Inl (ValidationError ''Field required'')
      else
        let p = \<lparr> params_messages = dict_get kwargs ''messages'',
                  params_model = dict_get kwargs ''model'',
                  params_user = dict_get kwargs ''user'',
                  params_tools = dict_get kwargs ''tools'',
                  params_tool_choice = dict_get kwargs ''tool_choice'',
                  params_reasoning_effort = dict_get kwargs ''reasoning_effort'',
                  params_structured_model = dict_get kwargs ''structured_model'' \<rparr>
        in if valid h p then Inr p else Inl (ValidationError ''Input should be a valid value''))"

text \<open>The default of a field in \<open>_merge_parameters\<close>: the chain of comparisons of the source.\<close>

definition default_value :: "'h client \<Rightarrow> string \<Rightarrow> val" where
  "default_value self field =
     (if field = ''model'' then self_model_name self
      else if field = ''tools'' then self_tools self
      else if field = ''tool_choice'' then self_tool_choice self
      else if field = ''reasoning_effort'' then self_reasoning_effort self
      else if field = ''user'' then self_user self
      else if field = ''structured_model'' then VNone
      else VNone)"

text \<open>
  One round of the loop over the fields: the value stored under \<open>field\<close> and the store
  afterwards.  \<^verbatim>\<open>default_value + runtime_value\<close> builds a new list;
  \<^verbatim>\<open>default_value.copy()\<close> builds a new dictionary, which \<^verbatim>\<open>update\<close> then changes in place.
\<close>

definition merge_field ::
  "'h client \<Rightarrow> dict \<Rightarrow> dict \<Rightarrow> store \<Rightarrow> string \<Rightarrow> val \<times> store" where
  "merge_field self runtime merge_flags h field =
     (let dv = default_value self field;
          runtime_value = dict_get runtime field;
          merge_flag = (case map_of merge_flags field of None \<Rightarrow> False | Some f \<Rightarrow> truthy h f)
      in if merge_flag \<and> dv \<noteq> VNone \<and> runtime_value \<noteq> VNone then
           (case (list_at h dv, list_at h runtime_value) of
              (Some xs, Some ys) \<Rightarrow>
                (let (a, h1) = alloc h (OList (xs @ ys)) in (VRef a, h1))
            | _ \<Rightarrow>
               (case (dict_at h dv, dict_at h runtime_value) of
                  (Some dd, Some rd) \<Rightarrow>
                    (let (a, h1) = alloc h (ODict dd);
                         h2 = store_set h1 a (ODict (dict_update dd rd))
                     in (VRef a, h2))
                | _ \<Rightarrow> (runtime_value, h)))
         else (if runtime_value \<noteq> VNone then runtime_value else dv, h))"

fun merge_fields ::
  "'h client \<Rightarrow> dict \<Rightarrow> dict \<Rightarrow> string list \<Rightarrow> dict \<Rightarrow> store \<Rightarrow> dict \<times> store" where
  "merge_fields self runtime merge_flags [] merged h = (merged, h)"
| "merge_fields self runtime merge_flags (field # rest) merged h =
     (let (v, h1) = merge_field self runtime merge_flags h field
      in merge_fields self runtime merge_flags rest (AList.update field v merged) h1)"

text \<open>The second loop: runtime keys that are not yet in \<open>merged\<close> are added.\<close>

fun add_runtime_keys :: "dict \<Rightarrow> dict \<Rightarrow> dict" where
  "add_runtime_keys [] merged = merged"
| "add_runtime_keys ((key, v) # rest) merged =
     add_runtime_keys rest
       (if key \<notin> set (map fst merged) then AList.update key v merged else merged)"

text \<open>
  \<open>merged_dict\<close> is the dictionary \<open>merged\<close> at the end of both loops;
  \<open>merge_parameters\<close> passes it to the constructor (\<^verbatim>\<open>BaseLLMCallParams(**merged)\<close>).
\<close>

definition merged_dict :: "'h client \<Rightarrow> store \<Rightarrow> dict \<Rightarrow> dict \<Rightarrow> dict \<times> store" where
  "merged_dict self h runtime merge_flags =
     (let (merged, h1) = merge_fields self runtime merge_flags model_fields [] h
      in (add_runtime_keys runtime merged, h1))"

definition merge_parameters ::
  "(store \<Rightarrow> BaseLLMCallParams \<Rightarrow> bool) \<Rightarrow> 'h client \<Rightarrow> store \<Rightarrow> dict \<Rightarrow> dict
     \<Rightarrow> (error + BaseLLMCallParams) \<times> store" where
  "merge_parameters valid self h runtime merge_flags =
     (let (merged, h1) = merged_dict self h runtime merge_flags
      in (new_BaseLLMCallParams valid h1 merged, h1))"

text \<open>\<^verbatim>\<open>getattr(params, field)\<close> for the returned parameters.\<close>

definition params_get :: "BaseLLMCallParams \<Rightarrow> string \<Rightarrow> val" where
  "params_get p field =
     (if field = ''messages'' then params_messages p
      else if field = ''model'' then params_model p
      else if field = ''user'' then params_user p
      else if field = ''tools'' then params_tools p
      else if field = ''tool_choice'' then params_tool_choice p
      else if field = ''reasoning_effort'' then params_reasoning_effort p
      else if field = ''structured_model'' then params_structured_model p
      else VNone)"

text \<open>A value is well-formed in a store when it is no reference or refers to an existing object.\<close>

definition wf_val :: "store \<Rightarrow> val \<Rightarrow> bool" where
  "wf_val h v = (case v of VRef a \<Rightarrow> a < length h | _ \<Rightarrow> True)"

subsection \<open>The provider call on the store\<close>

text \<open>
  Inside the provider call the merged parameters are validated again, first of all by
  \<open>_set_messages\<close>, which works on the message objects that were passed: a message is an
  object with a \<^verbatim>\<open>role\<close> attribute.  \<open>role_of\<close> reads it, \<open>in_models\<close> is
  \<^verbatim>\<open>model_name in TABLE\<close>, and \<open>model_text\<close> is the model name as it is printed (a name that
  is no string is printed as the empty string).
\<close>

definition role_of :: "store \<Rightarrow> val \<Rightarrow> val option" where
  "role_of h m =
     (case m of
        VRef a \<Rightarrow> (case lookup h a of Some (OObject obj_attrs) \<Rightarrow> map_of obj_attrs ''role'' | _ \<Rightarrow> None)
      | _ \<Rightarrow> None)"

definition in_models :: "val \<Rightarrow> string list \<Rightarrow> bool" where
  "in_models model_name table = (case model_name of VStr n \<Rightarrow> n \<in> set table | _ \<Rightarrow> False)"

definition model_text :: "val \<Rightarrow> string" where
  "model_text model_name = (case model_name of VStr n \<Rightarrow> n | _ \<Rightarrow> [])"

text \<open>
  Modelled from the spec: \<^verbatim>\<open>standardize_messages\<close> and \<^verbatim>\<open>count_message_roles\<close> of the
  missing module \<^verbatim>\<open>astral_ai.clients.utils\<close>, on the store.  The messages of a list are its
  elements; any other value is one message.
\<close>

definition message_refs :: "store \<Rightarrow> val \<Rightarrow> val list" where
  "message_refs h messages = (case list_at h messages of Some ms \<Rightarrow> ms | None \<Rightarrow> [messages])"

definition count_roles_in_store :: "store \<Rightarrow> val list \<Rightarrow> nat \<times> nat" where
  "count_roles_in_store h ms =
     (length (filter (\<lambda>m. role_of h m = Some (VStr ''system'')) ms),
      length (filter (\<lambda>m. role_of h m = Some (VStr ''developer'')) ms))"

text \<open>
  Modelled from the spec: \<^verbatim>\<open>convert_message_roles\<close> of the same missing module, on the
  store.  The source discards its result and returns \<open>messages\<close>, so the rewriting of the
  instruction message's role happens in the message object itself.
\<close>

definition rewrite_role :: "store \<Rightarrow> val \<Rightarrow> string \<Rightarrow> store" where
  "rewrite_role h m target =
     (case m of
        VRef a \<Rightarrow>
          (case lookup h a of
             Some (OObject obj_attrs) \<Rightarrow>
               if map_of obj_attrs ''role'' = Some (VStr ''system'')
                  \<or> map_of obj_attrs ''role'' = Some (VStr ''developer'')
               then store_set h a (OObject (AList.update ''role'' (VStr target) obj_attrs))
               else h
           | _ \<Rightarrow> h)
      | _ \<Rightarrow> h)"

fun convert_roles_in_store :: "store \<Rightarrow> val list \<Rightarrow> string \<Rightarrow> store" where
  "convert_roles_in_store h [] target = h"
| "convert_roles_in_store h (m # ms) target = convert_roles_in_store (rewrite_role h m target) ms target"

text \<open>
  \<open>_set_messages\<close> on the store, with the checks and branches of the source; the result is
  the list of messages and the store after the call.  The empty case is
  \<^verbatim>\<open>handle_no_messages\<close>, modelled from the spec as above.
\<close>

definition set_messages_in_store ::
  "store \<Rightarrow> val \<Rightarrow> val \<Rightarrow> bool \<Rightarrow> (error + val list) \<times> store" where
  "set_messages_in_store h model_name messages init_call =
     (if \<not> truthy h messages then (Inl (MessagesNotProvidedError (model_text model_name)), h)
      else
        let msgs = message_refs h messages;
            (system_count, developer_count) = count_roles_in_store h msgs
        in if system_count > 1 then
             (Inl (InvalidMessageError
                ''Invalid message role provided. More than one system message provided.''), h)
           else if developer_count > 1 then
             (Inl (InvalidMessageError
                ''Invalid message role provided. More than one developer message provided.''), h)
           else if system_count \<ge> 1 \<and> developer_count \<ge> 1 then
             (Inl (InvalidMessageError
                ''Invalid message role provided. Both system and developer messages provided.''), h)
           else if system_count > 0 then
             (if in_models model_name DEVELOPER_MESSAGE_SUPPORTED_MODELS then
                (Inr msgs, convert_roles_in_store h msgs ''developer'')
              else if in_models model_name ONLY_USER_MESSAGE_SUPPORTED_MODELS then
                (Inr msgs, convert_roles_in_store h msgs ''user'')
              else (Inr msgs, h))
           else if developer_count > 0 then
             (if in_models model_name SYSTEM_MESSAGE_SUPPORTED_MODELS then
                (Inr msgs, convert_roles_in_store h msgs ''system'')
              else if in_models model_name ONLY_USER_MESSAGE_SUPPORTED_MODELS then
                (Inr msgs, convert_roles_in_store h msgs ''user'')
              else (Inr msgs, h))
           else (Inr msgs, h))"

text \<open>
  A decorated \<open>_call_api_*\<close> method of \<open>OpenAILLMClient\<close>.  \<open>body\<close> is one of the four method
  bodies above.  The wrapper refuses a call without a model name before the method runs.
  The method first normalizes the messages of the parameters (with \<^verbatim>\<open>init_call=False\<close>),
  which may rewrite roles in the store; \<open>prepare\<close> stands for the rest of
  \<^verbatim>\<open>_prepare_params_for_provider\<close> (the validators of tools, tool choice, reasoning effort
  and structured model, which return what they are given or raise, and the conversion
  \<^verbatim>\<open>to_openai_format\<close> of a module that is not among the sources).  No attribute of the
  client is assigned.
\<close>

definition decorated_call ::
  "(error + 'q \<Rightarrow> ('q \<Rightarrow> 'p response transport_result) \<Rightarrow> error + 'p response)
     \<Rightarrow> (string \<Rightarrow> AIUsage \<Rightarrow> 'c) \<Rightarrow> real \<Rightarrow> real
     \<Rightarrow> ('h client \<Rightarrow> store \<Rightarrow> val list \<Rightarrow> BaseLLMCallParams \<Rightarrow> val \<Rightarrow> error + 'q)
     \<Rightarrow> ('q \<Rightarrow> 'p response transport_result)
     \<Rightarrow> 'h client \<Rightarrow> store \<Rightarrow> val \<Rightarrow> val \<Rightarrow> BaseLLMCallParams \<Rightarrow> bool \<Rightarrow> bool
     \<Rightarrow> (error + ('p response \<times> AIUsage option \<times> 'c option)) \<times> 'h client \<times> store" where
  "decorated_call body track_model_cost start_time end_time prepare transport
       self h model_name structured_model params return_usage return_cost =
     (if model_name = VNone then
        (wrapper track_model_cost start_time end_time None (Some return_usage) (Some return_cost)
           (Inl (ValueError [])), self, h)
      else
        (case set_messages_in_store h (params_model params) (params_messages params) False of
           (Inl err, h1) \<Rightarrow>
             (wrapper track_model_cost start_time end_time (Some (model_text model_name))
                (Some return_usage) (Some return_cost) (Inl err), self, h1)
         | (Inr msgs, h1) \<Rightarrow>
             (wrapper track_model_cost start_time end_time (Some (model_text model_name))
                (Some return_usage) (Some return_cost)
                (body (prepare self h1 msgs params structured_model) transport), self, h1)))"

definition openai_call_api_sync where
  "openai_call_api_sync track_model_cost start_time end_time prepare transport
       self h model_name params return_usage return_cost =
     decorated_call call_api_sync track_model_cost start_time end_time prepare transport
       self h model_name VNone params return_usage return_cost"

definition openai_call_api_async where
  "openai_call_api_async track_model_cost start_time end_time prepare transport
       self h model_name params return_usage return_cost =
     decorated_call call_api_async track_model_cost start_time end_time prepare transport
       self h model_name VNone params return_usage return_cost"

definition openai_call_api_structured where
  "openai_call_api_structured payload_truthy track_model_cost start_time end_time prepare
       transport self h model_name structured_model params return_usage return_cost =
     decorated_call (call_api_structured payload_truthy) track_model_cost start_time end_time
       prepare transport self h model_name structured_model params return_usage return_cost"

definition openai_call_api_structured_async where
  "openai_call_api_structured_async payload_truthy track_model_cost start_time end_time prepare
       transport self h model_name structured_model params return_usage return_cost =
     decorated_call (call_api_structured_async payload_truthy) track_model_cost start_time
       end_time prepare transport self h model_name structured_model params return_usage
       return_cost"

subsection \<open>The public call methods\<close>

text \<open>
  The four public call methods share one body; they differ in the mode they ask of
  \<open>validate_client\<close> and in the method they hand the merged parameters to.  \<open>call_api\<close>
  stands for that method, abstract in \<open>BaseLLMClient\<close>: it receives the client, the store,
  the model of the merged parameters and the parameters, and yields the outcome of the
  call with the client and the store it leaves behind.  The keyword \<^verbatim>\<open>__merge__\<close>, when
  given, must be a dictionary: \<^verbatim>\<open>merge_flags.get\<close> fails on any other value.  The result
  pairs the outcome with the client and the store after the call, also when the call
  raises.
\<close>

definition run_body ::
  "(bool \<Rightarrow> error + 'h) \<Rightarrow> (store \<Rightarrow> BaseLLMCallParams \<Rightarrow> bool)
     \<Rightarrow> ('h client \<Rightarrow> store \<Rightarrow> val \<Rightarrow> BaseLLMCallParams \<Rightarrow> bool \<Rightarrow> bool
          \<Rightarrow> (error + 'r) \<times> 'h client \<times> store)
     \<Rightarrow> bool \<Rightarrow> 'h client \<Rightarrow> store \<Rightarrow> val \<Rightarrow> bool \<Rightarrow> bool \<Rightarrow> dict
     \<Rightarrow> (error + 'r) \<times> 'h client \<times> store" where
  "run_body init_client valid call_api use_async self h messages return_usage return_cost kwargs =
     (case validate_client init_client self use_async of
        (Some err, self1) \<Rightarrow> (Inl err, self1, h)
      | (None, self1) \<Rightarrow>
          (let runtime_params = AList.update ''messages'' messages kwargs;
               popped = map_of runtime_params ''__merge__'';
               runtime_params = AList.delete ''__merge__'' runtime_params
           in case (case popped of None \<Rightarrow> Some [] | Some v \<Rightarrow> dict_at h v) of
                None \<Rightarrow> (Inl (AttributeError ''get''), self1, h)
              | Some merge_flags \<Rightarrow>
                 (case merge_parameters valid self1 h runtime_params merge_flags of
                    (Inl err, h1) \<Rightarrow> (Inl err, self1, h1)
                  | (Inr merged_params, h1) \<Rightarrow>
                      call_api self1 h1 (params_model merged_params) merged_params
                        return_usage return_cost)))"

definition run where
  "run init_client valid api_sync self h messages return_usage return_cost kwargs =
     run_body init_client valid api_sync False self h messages return_usage return_cost kwargs"

definition run_async where
  "run_async init_client valid api_async self h messages return_usage return_cost kwargs =
     run_body init_client valid api_async True self h messages return_usage return_cost kwargs"

definition run_structured where
  "run_structured init_client valid api_structured self h structured_model messages
       return_usage return_cost kwargs =
     run_body init_client valid
       (\<lambda>c st model_name. api_structured c st model_name structured_model)
       False self h messages return_usage return_cost kwargs"

definition run_structured_async where
  "run_structured_async init_client valid api_structured_async self h structured_model messages
       return_usage return_cost kwargs =
     run_body init_client valid
       (\<lambda>c st model_name. api_structured_async c st model_name structured_model)
       True self h messages return_usage return_cost kwargs"

section \<open>Properties of the version resolver\<close>

lemmas date_eval =
  extract_date_def lstrip_char_def py_int_def strip_space_def int_space_def digit_val_def
  date_le_def

lemma MODEL_DEFINITIONS_keys:
  "map fst MODEL_DEFINITIONS =
     [''claude-3-5-sonnet'', ''claude-3-haiku'', ''claude-3-opus'', ''gpt-4o'', ''o1'',
      ''o1-mini'', ''o3-mini'']"
  by (simp add: MODEL_DEFINITIONS_def)

lemma resolve_alias:
  assumes "map_of MODEL_DEFINITIONS A = Some d"
  shows "resolve_model_name A = getitem d ''most_recent_model''"
proof -
  have "A \<in> set (map fst MODEL_DEFINITIONS)"
    using map_of_SomeD [OF assms] by (metis fst_conv image_eqI set_map)
  then show ?thesis using assms by (simp add: resolve_model_name_def getitem_def)
qed

text \<open>An input that is not an alias enters the loop, whose first round already fails.\<close>

lemma resolve_not_alias:
  assumes "inp \<notin> set (map fst MODEL_DEFINITIONS)"
  shows "resolve_model_name inp = Inl (KeyError ''model_names'')"
  using assms
  by (simp add: resolve_model_name_def MODEL_DEFINITIONS_def claude_3_5_sonnet_definition_def
      getitem_def)

text \<open>The extracted dates of the versioned ids, relative to their alias.\<close>

lemma dates_gpt_4o:
  "extract_date ''gpt-4o-01-15-24'' ''gpt-4o'' = (2024, 1, 15)"
  "extract_date ''gpt-4o-12-17-24'' ''gpt-4o'' = (2024, 12, 17)"
  "extract_date ''gpt-4o-01-10-24'' ''gpt-4o'' = (2024, 1, 10)"
  by (simp_all add: date_eval)

lemma dates_o1:
  "extract_date ''o1-01-15-24'' ''o1'' = (2024, 1, 15)"
  "extract_date ''o1-12-17-24'' ''o1'' = (2024, 12, 17)"
  "extract_date ''o1-01-10-24'' ''o1'' = (2024, 1, 10)"
  by (simp_all add: date_eval)

lemma dates_o1_mini:
  "extract_date ''o1-mini-01-15-24'' ''o1-mini'' = (2024, 1, 15)"
  "extract_date ''o1-mini-12-17-24'' ''o1-mini'' = (2024, 12, 17)"
  "extract_date ''o1-mini-01-10-24'' ''o1-mini'' = (2024, 1, 10)"
  by (simp_all add: date_eval)

lemma dates_single:
  "extract_date ''claude-3-5-sonnet-20241022'' ''claude-3-5-sonnet'' = (2024, 10, 22)"
  "extract_date ''claude-3-5-haiku-20241022'' ''claude-3-haiku'' = (0, 0, 0)"
  "extract_date ''claude-3-opus-20240229'' ''claude-3-opus'' = (2024, 2, 29)"
  "extract_date ''o3-mini-2025-01-31'' ''o3-mini'' = (2031, 2025, 1)"
  by (simp_all add: date_eval)

text \<open>
  For one table entry: the stored most recent model is in the id list and no id of the
  list has a later date.
\<close>

lemma entry_claude_3_5_sonnet:
  "\<exists>m ids. getitem claude_3_5_sonnet_definition ''most_recent_model'' = Inr (DStr m)
     \<and> map_of claude_3_5_sonnet_definition ''model_ids'' = Some (DIds ids) \<and> m \<in> set ids
     \<and> (\<forall>v \<in> set ids. date_le (extract_date v ''claude-3-5-sonnet'')
                                  (extract_date m ''claude-3-5-sonnet''))"
  by (simp add: claude_3_5_sonnet_definition_def getitem_def dates_single date_le_def)

lemma entry_claude_3_haiku:
  "\<exists>m ids. getitem claude_3_haiku_definition ''most_recent_model'' = Inr (DStr m)
     \<and> map_of claude_3_haiku_definition ''model_ids'' = Some (DIds ids) \<and> m \<in> set ids
     \<and> (\<forall>v \<in> set ids. date_le (extract_date v ''claude-3-haiku'')
                                  (extract_date m ''claude-3-haiku''))"
  by (simp add: claude_3_haiku_definition_def getitem_def dates_single date_le_def)

lemma entry_claude_3_opus:
  "\<exists>m ids. getitem claude_3_opus_definition ''most_recent_model'' = Inr (DStr m)
     \<and> map_of claude_3_opus_definition ''model_ids'' = Some (DIds ids) \<and> m \<in> set ids
     \<and> (\<forall>v \<in> set ids. date_le (extract_date v ''claude-3-opus'')
                                  (extract_date m ''claude-3-opus''))"
  by (simp add: claude_3_opus_definition_def getitem_def dates_single date_le_def)

lemma entry_gpt_4o:
  "\<exists>m ids. getitem gpt_4o_definition ''most_recent_model'' = Inr (DStr m)
     \<and> map_of gpt_4o_definition ''model_ids'' = Some (DIds ids) \<and> m \<in> set ids
     \<and> (\<forall>v \<in> set ids. date_le (extract_date v ''gpt-4o'') (extract_date m ''gpt-4o''))"
  by (simp add: gpt_4o_definition_def getitem_def dates_gpt_4o date_le_def)

lemma entry_o1:
  "\<exists>m ids. getitem o1_definition ''most_recent_model'' = Inr (DStr m)
     \<and> map_of o1_definition ''model_ids'' = Some (DIds ids) \<and> m \<in> set ids
     \<and> (\<forall>v \<in> set ids. date_le (extract_date v ''o1'') (extract_date m ''o1''))"
  by (simp add: o1_definition_def getitem_def dates_o1 date_le_def)

lemma entry_o1_mini:
  "\<exists>m ids. getitem o1_mini_definition ''most_recent_model'' = Inr (DStr m)
     \<and> map_of o1_mini_definition ''model_ids'' = Some (DIds ids) \<and> m \<in> set ids
     \<and> (\<forall>v \<in> set ids. date_le (extract_date v ''o1-mini'') (extract_date m ''o1-mini''))"
  by (simp add: o1_mini_definition_def getitem_def dates_o1_mini date_le_def)

lemma entry_o3_mini:
  "\<exists>m ids. getitem o3_mini_definition ''most_recent_model'' = Inr (DStr m)
     \<and> map_of o3_mini_definition ''model_ids'' = Some (DIds ids) \<and> m \<in> set ids
     \<and> (\<forall>v \<in> set ids. date_le (extract_date v ''o3-mini'') (extract_date m ''o3-mini''))"
  by (simp add: o3_mini_definition_def getitem_def dates_single date_le_def)

lemma all_entries:
  assumes "(A, d) \<in> set MODEL_DEFINITIONS"
  shows "\<exists>m ids. getitem d ''most_recent_model'' = Inr (DStr m)
     \<and> map_of d ''model_ids'' = Some (DIds ids) \<and> m \<in> set ids
     \<and> (\<forall>v \<in> set ids. date_le (extract_date v A) (extract_date m A))"
proof -
  from assms have
      "(A = ''claude-3-5-sonnet'' \<and> d = claude_3_5_sonnet_definition)
    \<or> (A = ''claude-3-haiku'' \<and> d = claude_3_haiku_definition)
    \<or> (A = ''claude-3-opus'' \<and> d = claude_3_opus_definition)
    \<or> (A = ''gpt-4o'' \<and> d = gpt_4o_definition)
    \<or> (A = ''o1'' \<and> d = o1_definition)
    \<or> (A = ''o1-mini'' \<and> d = o1_mini_definition)
    \<or> (A = ''o3-mini'' \<and> d = o3_mini_definition)"
    by (simp add: MODEL_DEFINITIONS_def)
  then show ?thesis
  proof (elim disjE conjE)
    assume "A = ''claude-3-5-sonnet''" "d = claude_3_5_sonnet_definition"
    then show ?thesis using entry_claude_3_5_sonnet by simp
  next
    assume "A = ''claude-3-haiku''" "d = claude_3_haiku_definition"
    then show ?thesis using entry_claude_3_haiku by simp
  next
    assume "A = ''claude-3-opus''" "d = claude_3_opus_definition"
    then show ?thesis using entry_claude_3_opus by simp
  next
    assume "A = ''gpt-4o''" "d = gpt_4o_definition"
    then show ?thesis using entry_gpt_4o by simp
  next
    assume "A = ''o1''" "d = o1_definition"
    then show ?thesis using entry_o1 by simp
  next
    assume "A = ''o1-mini''" "d = o1_mini_definition"
    then show ?thesis using entry_o1_mini by simp
  next
    assume "A = ''o3-mini''" "d = o3_mini_definition"
    then show ?thesis using entry_o3_mini by simp
  qed
qed

text \<open>
  Claim C1 (as the code behaves).  The claim says that a versioned id that is not an alias
  is returned unchanged and that an unknown name raises ValueError.  The table stores the
  id list under the key \<^verbatim>\<open>model_ids\<close>, while \<open>resolve_model_name\<close> reads the key
  \<^verbatim>\<open>model_names\<close>: the versioned id \<^verbatim>\<open>gpt-4o-12-17-24\<close>, which is in the id list of
  \<^verbatim>\<open>gpt-4o\<close> and is no alias, raises KeyError, and so does the unknown name
  \<^verbatim>\<open>no-such-model\<close>.
\<close>

theorem resolve_model_name_versioned_id_KeyError:
  "''gpt-4o-12-17-24'' \<notin> set (map fst MODEL_DEFINITIONS)
   \<and> map_of MODEL_DEFINITIONS ''gpt-4o'' = Some gpt_4o_definition
   \<and> py_in ''gpt-4o-12-17-24'' (the (map_of gpt_4o_definition ''model_ids''))
   \<and> resolve_model_name ''gpt-4o-12-17-24'' = Inl (KeyError ''model_names'')
   \<and> resolve_model_name ''no-such-model'' = Inl (KeyError ''model_names'')"
proof -
  have a: "''gpt-4o-12-17-24'' \<notin> set (map fst MODEL_DEFINITIONS)"
    by (simp add: MODEL_DEFINITIONS_keys)
  have b: "''no-such-model'' \<notin> set (map fst MODEL_DEFINITIONS)"
    by (simp add: MODEL_DEFINITIONS_keys)
  have c: "map_of MODEL_DEFINITIONS ''gpt-4o'' = Some gpt_4o_definition"
    by (simp add: MODEL_DEFINITIONS_def)
  have d: "py_in ''gpt-4o-12-17-24'' (the (map_of gpt_4o_definition ''model_ids''))"
    by (simp add: gpt_4o_definition_def)
  show ?thesis
    using a c d resolve_not_alias [OF a] resolve_not_alias [OF b] by simp
qed

text \<open>
  Claim C2.  For every alias \<open>A\<close> of the table, \<open>resolve_model_name A\<close> returns the stored
  most recent model; it is a member of the id list of \<open>A\<close>, and no id of that list has a
  later extracted date (relative to \<open>A\<close>).  The alias \<^verbatim>\<open>gpt-4o\<close>, whose ids are dated
  01-15-24, 12-17-24 and 01-10-24, resolves to the 12-17-24 id.
\<close>

theorem resolve_alias_most_recent:
  assumes "map_of MODEL_DEFINITIONS A = Some d"
  shows "(\<exists>m ids. map_of d ''most_recent_model'' = Some (DStr m)
            \<and> map_of d ''model_ids'' = Some (DIds ids)
            \<and> resolve_model_name A = Inr (DStr m)
            \<and> m \<in> set ids
            \<and> (\<forall>v \<in> set ids. date_le (extract_date v A) (extract_date m A)))
         \<and> resolve_model_name ''gpt-4o'' = Inr (DStr ''gpt-4o-12-17-24'')
         \<and> extract_date ''gpt-4o-01-10-24'' ''gpt-4o'' = (2024, 1, 10)
         \<and> extract_date ''gpt-4o-01-15-24'' ''gpt-4o'' = (2024, 1, 15)
         \<and> extract_date ''gpt-4o-12-17-24'' ''gpt-4o'' = (2024, 12, 17)"
proof -
  have r: "resolve_model_name A = getitem d ''most_recent_model''"
    using assms by (rule resolve_alias)
  obtain m ids where e: "getitem d ''most_recent_model'' = Inr (DStr m)"
      "map_of d ''model_ids'' = Some (DIds ids)" "m \<in> set ids"
      "\<forall>v \<in> set ids. date_le (extract_date v A) (extract_date m A)"
    using all_entries [OF map_of_SomeD [OF assms]] by blast
  have "map_of d ''most_recent_model'' = Some (DStr m)"
    using e(1) by (simp add: getitem_def split: option.splits)
  with e r have first: "\<exists>m ids. map_of d ''most_recent_model'' = Some (DStr m)
            \<and> map_of d ''model_ids'' = Some (DIds ids)
            \<and> resolve_model_name A = Inr (DStr m)
            \<and> m \<in> set ids
            \<and> (\<forall>v \<in> set ids. date_le (extract_date v A) (extract_date m A))"
    by auto
  have g: "map_of MODEL_DEFINITIONS ''gpt-4o'' = Some gpt_4o_definition"
    by (simp add: MODEL_DEFINITIONS_def)
  have "resolve_model_name ''gpt-4o'' = Inr (DStr ''gpt-4o-12-17-24'')"
    unfolding resolve_alias [OF g] by (simp add: gpt_4o_definition_def getitem_def)
  with first dates_gpt_4o show ?thesis by simp
qed

theorem resolve_alias_most_recent_witness:
  "map_of MODEL_DEFINITIONS ''o1-mini'' = Some o1_mini_definition
   \<and> resolve_model_name ''o1-mini'' = Inr (DStr ''o1-mini-12-17-24'')
   \<and> date_le (extract_date ''o1-mini-01-15-24'' ''o1-mini'')
             (extract_date ''o1-mini-12-17-24'' ''o1-mini'')"
proof -
  have h: "map_of MODEL_DEFINITIONS ''o1-mini'' = Some o1_mini_definition"
    by (simp add: MODEL_DEFINITIONS_def)
  from resolve_alias_most_recent [OF h]
  obtain m ids where e: "map_of o1_mini_definition ''most_recent_model'' = Some (DStr m)"
      "map_of o1_mini_definition ''model_ids'' = Some (DIds ids)"
      "resolve_model_name ''o1-mini'' = Inr (DStr m)"
      "\<forall>v \<in> set ids. date_le (extract_date v ''o1-mini'') (extract_date m ''o1-mini'')"
    by blast
  have m: "m = ''o1-mini-12-17-24''"
    using e(1) by (simp add: o1_mini_definition_def)
  have "''o1-mini-01-15-24'' \<in> set ids"
    using e(2) by (auto simp: o1_mini_definition_def)
  with e(3,4) h m show ?thesis by blast
qed

section \<open>Properties of the message normalizer\<close>

lemma standardize_nonempty:
  "standardize_messages messages \<noteq> [] \<Longrightarrow> \<not> no_messages messages"
  by (cases messages) auto

lemma role_set_role: "role (set_role r m) = r"
  by (cases m) simp_all

lemma content_set_role: "message_content (set_role r m) = message_content m"
  by (cases m) simp_all

lemma length_convert: "length (convert_message_roles ms t model_name) = length ms"
  by (simp add: convert_message_roles_def)

lemma nth_convert:
  "i < length ms \<Longrightarrow>
   convert_message_roles ms t model_name ! i =
     (if role (ms ! i) = ''system'' \<or> role (ms ! i) = ''developer'' then set_role t (ms ! i)
      else ms ! i)"
  by (simp add: convert_message_roles_def)

lemma supported_lists_disjoint:
  "set SYSTEM_MESSAGE_SUPPORTED_MODELS \<inter> set DEVELOPER_MESSAGE_SUPPORTED_MODELS = {}"
  "set SYSTEM_MESSAGE_SUPPORTED_MODELS \<inter> set ONLY_USER_MESSAGE_SUPPORTED_MODELS = {}"
  "set DEVELOPER_MESSAGE_SUPPORTED_MODELS \<inter> set ONLY_USER_MESSAGE_SUPPORTED_MODELS = {}"
  by (simp_all add: SYSTEM_MESSAGE_SUPPORTED_MODELS_def DEVELOPER_MESSAGE_SUPPORTED_MODELS_def
      ONLY_USER_MESSAGE_SUPPORTED_MODELS_def)

lemma filter_empty_no_role:
  "length (filter (\<lambda>m. role m = r) ms) = 0 \<Longrightarrow> i < length ms \<Longrightarrow> role (ms ! i) \<noteq> r"
  by (metis (mono_tags, lifting) filter_empty_conv length_0_conv nth_mem)

text \<open>The outcome of the normalizer when exactly one system message and no developer message is present.\<close>

lemma set_messages_one_system:
  assumes "msgs = standardize_messages messages"
    and "length (filter (\<lambda>m. role m = ''system'') msgs) = 1"
    and "length (filter (\<lambda>m. role m = ''developer'') msgs) = 0"
  shows "set_messages model_name messages init_call =
           Inr (if model_name \<in> set DEVELOPER_MESSAGE_SUPPORTED_MODELS
                then convert_message_roles msgs ''developer'' model_name
                else if model_name \<in> set ONLY_USER_MESSAGE_SUPPORTED_MODELS
                then convert_message_roles msgs ''user'' model_name
                else msgs)"
proof -
  have "msgs \<noteq> []" using assms(2) by auto
  then have ne: "\<not> no_messages messages" using assms(1) standardize_nonempty by blast
  have cnt: "count_message_roles (standardize_messages messages) = (1, 0)"
    using assms by (simp add: count_message_roles_def)
  show ?thesis using ne cnt assms(1) by (simp add: set_messages_def Let_def)
qed

lemma set_messages_one_developer:
  assumes "msgs = standardize_messages messages"
    and "length (filter (\<lambda>m. role m = ''system'') msgs) = 0"
    and "length (filter (\<lambda>m. role m = ''developer'') msgs) = 1"
  shows "set_messages model_name messages init_call =
           Inr (if model_name \<in> set SYSTEM_MESSAGE_SUPPORTED_MODELS
                then convert_message_roles msgs ''system'' model_name
                else if model_name \<in> set ONLY_USER_MESSAGE_SUPPORTED_MODELS
                then convert_message_roles msgs ''user'' model_name
                else msgs)"
proof -
  have "msgs \<noteq> []" using assms(3) by auto
  then have ne: "\<not> no_messages messages" using assms(1) standardize_nonempty by blast
  have cnt: "count_message_roles (standardize_messages messages) = (0, 1)"
    using assms by (simp add: count_message_roles_def)
  show ?thesis using ne cnt assms(1) by (simp add: set_messages_def Let_def)
qed

text \<open>
  Claim C4.  For every model name: an absent or empty input raises the no-messages error
  naming the model, and an input whose standardized list holds more than one system
  message, more than one developer message, or a system and a developer message together
  raises InvalidMessageError; no list is returned in any of these cases.
\<close>

theorem set_messages_rejects:
  assumes "msgs = standardize_messages messages"
    and "system_count = length (filter (\<lambda>m. role m = ''system'') msgs)"
    and "developer_count = length (filter (\<lambda>m. role m = ''developer'') msgs)"
  shows "(no_messages messages \<longrightarrow>
            set_messages model_name messages init_call = Inl (MessagesNotProvidedError model_name))
       \<and> (system_count > 1 \<or> developer_count > 1 \<or> (system_count \<ge> 1 \<and> developer_count \<ge> 1) \<longrightarrow>
            (\<exists>txt. set_messages model_name messages init_call = Inl (InvalidMessageError txt)))"
proof (intro conjI impI)
  assume "no_messages messages"
  then show "set_messages model_name messages init_call = Inl (MessagesNotProvidedError model_name)"
    by (simp add: set_messages_def handle_no_messages_def)
next
  assume bad: "system_count > 1 \<or> developer_count > 1 \<or> (system_count \<ge> 1 \<and> developer_count \<ge> 1)"
  then have "msgs \<noteq> []" using assms(2,3) by auto
  then have ne: "\<not> no_messages messages" using assms(1) standardize_nonempty by blast
  have cnt: "count_message_roles (standardize_messages messages) = (system_count, developer_count)"
    using assms by (simp add: count_message_roles_def)
  show "\<exists>txt. set_messages model_name messages init_call = Inl (InvalidMessageError txt)"
    using bad ne cnt by (auto simp: set_messages_def Let_def)
qed

theorem set_messages_rejects_witness:
  "set_messages ''gpt-4o'' NoMessages False = Inl (MessagesNotProvidedError ''gpt-4o'')
   \<and> (\<exists>txt. set_messages ''gpt-4o''
               (MessageSeq [TextMessage ''system'' ''a'', TextMessage ''developer'' ''b'']) False
             = Inl (InvalidMessageError txt))"
proof -
  have "set_messages ''gpt-4o'' NoMessages False = Inl (MessagesNotProvidedError ''gpt-4o'')"
    using set_messages_rejects [of "[]" NoMessages 0 0 "''gpt-4o''" False] by simp
  moreover have "\<exists>txt. set_messages ''gpt-4o''
               (MessageSeq [TextMessage ''system'' ''a'', TextMessage ''developer'' ''b'']) False
             = Inl (InvalidMessageError txt)"
    using set_messages_rejects
      [of "[TextMessage ''system'' ''a'', TextMessage ''developer'' ''b'']"
          "MessageSeq [TextMessage ''system'' ''a'', TextMessage ''developer'' ''b'']"
          1 1 "''gpt-4o''" False]
    by simp
  ultimately show ?thesis by blast
qed

text \<open>
  Claim C5.  For every model and every input with exactly one instruction message (system
  or developer role), the normalizer returns a list of the same length in the same order;
  every message keeps its content, every other message is returned as it is, and the role
  of the instruction message becomes: for a system message, developer when the model
  supports developer but not system instructions, user when the model is user-only; for a
  developer message, system when the model supports system instructions, user when the
  model is user-only.  A message whose role the model supports is returned unchanged.
\<close>

theorem set_messages_single_instruction:
  assumes "msgs = standardize_messages messages"
    and "system_count = length (filter (\<lambda>m. role m = ''system'') msgs)"
    and "developer_count = length (filter (\<lambda>m. role m = ''developer'') msgs)"
    and "system_count + developer_count = 1"
  shows "\<exists>out. set_messages model_name messages init_call = Inr out
           \<and> length out = length msgs
           \<and> (\<forall>i < length msgs.
                 message_content (out ! i) = message_content (msgs ! i)
               \<and> (role (msgs ! i) \<noteq> ''system'' \<and> role (msgs ! i) \<noteq> ''developer''
                    \<longrightarrow> out ! i = msgs ! i)
               \<and> (role (msgs ! i) = ''system'' \<longrightarrow>
                    role (out ! i) =
                      (if model_name \<in> set DEVELOPER_MESSAGE_SUPPORTED_MODELS
                          \<and> model_name \<notin> set SYSTEM_MESSAGE_SUPPORTED_MODELS then ''developer''
                       else if model_name \<in> set ONLY_USER_MESSAGE_SUPPORTED_MODELS then ''user''
                       else ''system''))
               \<and> (role (msgs ! i) = ''developer'' \<longrightarrow>
                    role (out ! i) =
                      (if model_name \<in> set SYSTEM_MESSAGE_SUPPORTED_MODELS then ''system''
                       else if model_name \<in> set ONLY_USER_MESSAGE_SUPPORTED_MODELS then ''user''
                       else ''developer''))
               \<and> ((role (msgs ! i) = ''system''
                      \<and> model_name \<in> set SYSTEM_MESSAGE_SUPPORTED_MODELS
                    \<or> role (msgs ! i) = ''developer''
                      \<and> model_name \<in> set DEVELOPER_MESSAGE_SUPPORTED_MODELS)
                    \<longrightarrow> out ! i = msgs ! i))"
proof -
  have dj: "model_name \<in> set DEVELOPER_MESSAGE_SUPPORTED_MODELS
              \<Longrightarrow> model_name \<notin> set SYSTEM_MESSAGE_SUPPORTED_MODELS"
     "model_name \<in> set SYSTEM_MESSAGE_SUPPORTED_MODELS
              \<Longrightarrow> model_name \<notin> set ONLY_USER_MESSAGE_SUPPORTED_MODELS"
     "model_name \<in> set DEVELOPER_MESSAGE_SUPPORTED_MODELS
              \<Longrightarrow> model_name \<notin> set ONLY_USER_MESSAGE_SUPPORTED_MODELS"
    using supported_lists_disjoint by blast+
  from assms(4) consider "system_count = 1" "developer_count = 0"
    | "system_count = 0" "developer_count = 1" by linarith
  then show ?thesis
  proof cases
    case 1
    then have s: "length (filter (\<lambda>m. role m = ''system'') msgs) = 1"
      and d: "length (filter (\<lambda>m. role m = ''developer'') msgs) = 0"
      using assms(2,3) by simp_all
    have nd: "\<And>i. i < length msgs \<Longrightarrow> role (msgs ! i) \<noteq> ''developer''"
      using filter_empty_no_role [OF d] by blast
    show ?thesis
      unfolding set_messages_one_system [OF assms(1) s d]
      using nd dj
      by (auto simp: length_convert nth_convert role_set_role content_set_role)
  next
    case 2
    then have s: "length (filter (\<lambda>m. role m = ''system'') msgs) = 0"
      and d: "length (filter (\<lambda>m. role m = ''developer'') msgs) = 1"
      using assms(2,3) by simp_all
    have ns: "\<And>i. i < length msgs \<Longrightarrow> role (msgs ! i) \<noteq> ''system''"
      using filter_empty_no_role [OF s] by blast
    show ?thesis
      unfolding set_messages_one_developer [OF assms(1) s d]
      using ns dj
      by (auto simp: length_convert nth_convert role_set_role content_set_role)
  qed
qed

theorem set_messages_single_instruction_witness:
  "\<exists>out. set_messages ''o1''
            (MessageSeq [TextMessage ''system'' ''be brief'', TextMessage ''user'' ''hi'']) False
          = Inr out
        \<and> length out = 2
        \<and> role (out ! 0) = ''developer''
        \<and> message_content (out ! 0) = Text ''be brief''
        \<and> out ! 1 = TextMessage ''user'' ''hi''"
proof -
  have m: "''o1'' \<in> set DEVELOPER_MESSAGE_SUPPORTED_MODELS"
          "''o1'' \<notin> set SYSTEM_MESSAGE_SUPPORTED_MODELS"
    by (simp_all add: DEVELOPER_MESSAGE_SUPPORTED_MODELS_def SYSTEM_MESSAGE_SUPPORTED_MODELS_def)
  from set_messages_single_instruction
    [of "[TextMessage ''system'' ''be brief'', TextMessage ''user'' ''hi'']"
        "MessageSeq [TextMessage ''system'' ''be brief'', TextMessage ''user'' ''hi'']"
        1 0 "''o1''" False]
  obtain out where o: "set_messages ''o1''
            (MessageSeq [TextMessage ''system'' ''be brief'', TextMessage ''user'' ''hi'']) False
          = Inr out" "length out = 2"
     and el: "\<forall>i<2. message_content (out ! i)
                 = message_content ([TextMessage ''system'' ''be brief'', TextMessage ''user'' ''hi''] ! i)
               \<and> (role ([TextMessage ''system'' ''be brief'', TextMessage ''user'' ''hi''] ! i) \<noteq> ''system''
                  \<and> role ([TextMessage ''system'' ''be brief'', TextMessage ''user'' ''hi''] ! i) \<noteq> ''developer''
                    \<longrightarrow> out ! i = [TextMessage ''system'' ''be brief'', TextMessage ''user'' ''hi''] ! i)
               \<and> (role ([TextMessage ''system'' ''be brief'', TextMessage ''user'' ''hi''] ! i) = ''system'' \<longrightarrow>
                    role (out ! i) = ''developer'')"
    using m by auto
  from el have "message_content (out ! 0) = Text ''be brief''" "role (out ! 0) = ''developer''"
    by (simp_all)
  moreover from el have "out ! 1 = TextMessage ''user'' ''hi''"
    by (simp)
  ultimately show ?thesis using o by blast
qed

section \<open>Properties of the capability gate for tools\<close>

lemma validate_each_tool_malformed:
  assumes "t \<in> set ts" "\<not> hasattr t ''name'' \<or> \<not> hasattr t ''description''"
  shows "\<exists>msg. validate_each_tool ts = Some (ValueError msg)"
  using assms by (induction ts) auto

text \<open>
  Claim C9 says that a tool entry without a name or a description raises ValueError even
  when the target model does not support tools.  The gate checks the model first: for the
  model \<^verbatim>\<open>gpt-3.5-turbo\<close>, which is not in the function-call table, a list with a
  malformed entry raises ToolsNotSupportedError.
\<close>

theorem set_tools_capability_check_first_counterexample:
  "validate_each_tool [\<lparr>shown = ''tool'', attrs = [''description'']\<rparr>]
     = Some (ValueError (''Tool tool missing required attributes '' @ apostrophe @ ''name''
               @ apostrophe @ '' and '' @ apostrophe @ ''description'' @ apostrophe))
   \<and> ''gpt-3.5-turbo'' \<notin> set FUNCTION_CALL_SUPPORTED_MODELS
   \<and> set_tools ''gpt-4o'' (ToolList [\<lparr>shown = ''tool'', attrs = [''description'']\<rparr>])
        ''gpt-3.5-turbo'' = Inl (ToolsNotSupportedError ''gpt-3.5-turbo'')"
  by (simp add: set_tools_def FUNCTION_CALL_SUPPORTED_MODELS_def hasattr_def)

text \<open>
  Claim C9, amended.  For every tools list with an entry that lacks a name or a
  description: when the model (the argument, or the client's own model when the argument
  is empty) is in the function-call table the gate raises ValueError; when it is not, the
  gate raises ToolsNotSupportedError, since the membership check comes first.
\<close>

theorem set_tools_malformed_tool:
  assumes "t \<in> set ts" and "\<not> hasattr t ''name'' \<or> \<not> hasattr t ''description''"
    and "model = (if model_name = [] then own_model_name else model_name)"
  shows "(model \<in> set FUNCTION_CALL_SUPPORTED_MODELS \<longrightarrow>
            (\<exists>msg. set_tools own_model_name (ToolList ts) model_name = Inl (ValueError msg)))
       \<and> (model \<notin> set FUNCTION_CALL_SUPPORTED_MODELS \<longrightarrow>
            set_tools own_model_name (ToolList ts) model_name
              = Inl (ToolsNotSupportedError model))"
proof -
  obtain msg where "validate_each_tool ts = Some (ValueError msg)"
    using validate_each_tool_malformed [OF assms(1,2)] by blast
  then show ?thesis using assms(3) by (simp add: set_tools_def)
qed

theorem set_tools_malformed_tool_witness:
  "(\<exists>msg. set_tools ''o1'' (ToolList [\<lparr>shown = ''a'', attrs = [''name'', ''description'']\<rparr>,
                                     \<lparr>shown = ''b'', attrs = [''name'']\<rparr>]) ''gpt-4o''
            = Inl (ValueError msg))
   \<and> set_tools ''o1'' (ToolList [\<lparr>shown = ''b'', attrs = [''name'']\<rparr>]) ''davinci''
       = Inl (ToolsNotSupportedError ''davinci'')"
proof -
  have a: "\<lparr>shown = ''b'', attrs = [''name'']\<rparr>
             \<in> set [\<lparr>shown = ''a'', attrs = [''name'', ''description'']\<rparr>,
                    \<lparr>shown = ''b'', attrs = [''name'']\<rparr>]" by simp
  have a': "\<lparr>shown = ''b'', attrs = [''name'']\<rparr> \<in> set [\<lparr>shown = ''b'', attrs = [''name'']\<rparr>]"
    by simp
  have b: "\<not> hasattr \<lparr>shown = ''b'', attrs = [''name'']\<rparr> ''name''
           \<or> \<not> hasattr \<lparr>shown = ''b'', attrs = [''name'']\<rparr> ''description''"
    by (simp add: hasattr_def)
  have c: "''gpt-4o'' = (if ''gpt-4o'' = [] then ''o1'' else ''gpt-4o'')" by simp
  have d: "''davinci'' = (if ''davinci'' = [] then ''o1'' else ''davinci'')" by simp
  have e: "''gpt-4o'' \<in> set FUNCTION_CALL_SUPPORTED_MODELS"
    by (simp add: FUNCTION_CALL_SUPPORTED_MODELS_def)
  have f: "''davinci'' \<notin> set FUNCTION_CALL_SUPPORTED_MODELS"
    by (simp add: FUNCTION_CALL_SUPPORTED_MODELS_def)
  from set_tools_malformed_tool [OF a b c] set_tools_malformed_tool [OF a' b d] e f
  show ?thesis by blast
qed

section \<open>Properties of the dispatcher\<close>

text \<open>What the four methods raise once the request has been prepared.\<close>

lemma call_api_sync_transport_raises:
  "call_api_sync (Inr q) (\<lambda>_. Raised e) =
     Inl (LLMResponseCompletionError (''Error during OpenAI API synchronous call: '' @ e))"
  by (simp add: call_api_sync_def)

lemma call_api_async_errors:
  assumes "call_api_async (Inr q) transport = Inl err"
  shows "(\<exists>t. err = LLMResponseCompletionError t) \<or> (\<exists>b. transport q = RaisedBase b)"
  using assms
  by (auto simp: call_api_async_def split: transport_result.splits list.splits if_splits)

lemma call_api_structured_errors:
  assumes "call_api_structured payload_truthy (Inr q) transport = Inl err"
  shows "(\<exists>t. err = LLMResponseCompletionError t) \<or> (\<exists>t. err = LLMResponseParseError t)
           \<or> (\<exists>b. transport q = RaisedBase b)"
  using assms
  by (auto simp: call_api_structured_def split: transport_result.splits list.splits if_splits)

lemma call_api_structured_async_errors:
  assumes "call_api_structured_async payload_truthy (Inr q) transport = Inl err"
  shows "(\<exists>t. err = LLMResponseCompletionError t) \<or> (\<exists>t. err = LLMResponseParseError t)
           \<or> (\<exists>b. transport q = RaisedBase b)"
  using assms
  by (auto simp: call_api_structured_async_def split: transport_result.splits list.splits if_splits)

text \<open>
  Claim C3 (as the code behaves).  The claim says that a response without choices, or whose
  first choice has empty content, raises LLMResponseCompletionError or
  LLMResponseParseError.  In the synchronous method both checks fail with
  UnboundLocalError while they build their message, and the decorator passes that
  exception on; the asynchronous method raises LLMResponseCompletionError on the same
  response.
\<close>

theorem call_api_sync_empty_response_UnboundLocalError:
  "call_api_sync (Inr ()) (\<lambda>_. Returned \<lparr>choices = [], usage = None\<rparr>
       :: unit response transport_result) = Inl (UnboundLocalError ''e'')
   \<and> call_api_sync (Inr ())
        (\<lambda>_. Returned \<lparr>choices = [\<lparr>content = Some [], parsed = None\<rparr>], usage = None\<rparr>
           :: unit response transport_result) = Inl (UnboundLocalError ''e'')
   \<and> wrapper (\<lambda>_ _. ()) 0 1 (Some ''gpt-4o'') (Some True) (Some True)
        (call_api_sync (Inr ()) (\<lambda>_. Returned \<lparr>choices = [], usage = None\<rparr>
           :: unit response transport_result)) = Inl (UnboundLocalError ''e'')
   \<and> call_api_async (Inr ()) (\<lambda>_. Returned \<lparr>choices = [], usage = None\<rparr>
       :: unit response transport_result)
       = Inl (LLMResponseCompletionError ''LLM returned no choices in async response'')"
  by (simp add: call_api_sync_def call_api_async_def wrapper_def content_truthy_def)

section \<open>Properties of the usage and cost accountant\<close>

text \<open>
  Claim C8.  The wrapper of \<open>calculate_cost_and_usage\<close>, for a decorated function that
  returned \<open>response\<close>.  When neither usage nor cost is requested the result is the response
  with \<open>None\<close> twice, whatever the response reports.  When cost is requested, the cost is
  \<open>track_model_cost\<close> of the usage built from the token counts the response reports and
  the measured latency; the usage component of the result is that usage when usage is
  requested too, and \<open>None\<close> when it is not.  Keyword arguments that are not passed count as
  not requested.  The last two conjuncts say the same of \<open>process_response\<close>.
\<close>

theorem calculate_cost_and_usage_result:
  "((kw_return_usage = None \<or> kw_return_usage = Some False)
        \<and> (kw_return_cost = None \<or> kw_return_cost = Some False) \<longrightarrow>
      wrapper track start_time end_time (Some model_name) kw_return_usage kw_return_cost
        (Inr response) = Inr (response, None, None))
   \<and> ((kw_return_usage = None \<or> kw_return_usage = Some False)
        \<and> usage response = Some cu \<and> prompt_tokens_details cu = Some d \<longrightarrow>
      wrapper track start_time end_time (Some model_name) kw_return_usage (Some True)
        (Inr response)
        = Inr (response, None,
               Some (track model_name
                 \<lparr> usage_prompt_tokens = prompt_tokens cu,
                   usage_cached_prompt_tokens = cached_tokens d,
                   usage_completion_tokens = completion_tokens cu,
                   usage_total_tokens = total_tokens cu,
                   latency = end_time - start_time \<rparr>)))
   \<and> (usage response = Some cu \<and> prompt_tokens_details cu = Some d \<longrightarrow>
      wrapper track start_time end_time (Some model_name) (Some True) (Some True)
        (Inr response)
        = Inr (response,
               Some \<lparr> usage_prompt_tokens = prompt_tokens cu,
                   usage_cached_prompt_tokens = cached_tokens d,
                   usage_completion_tokens = completion_tokens cu,
                   usage_total_tokens = total_tokens cu,
                   latency = end_time - start_time \<rparr>,
               Some (track model_name
                 \<lparr> usage_prompt_tokens = prompt_tokens cu,
                   usage_cached_prompt_tokens = cached_tokens d,
                   usage_completion_tokens = completion_tokens cu,
                   usage_total_tokens = total_tokens cu,
                   latency = end_time - start_time \<rparr>)))
   \<and> (\<not> ret_usage \<and> \<not> ret_cost \<longrightarrow>
      process_response track end_time response start_time model_name ret_usage ret_cost
        = Inr (response, None, None))
   \<and> (ret_cost \<and> usage response = Some cu \<and> prompt_tokens_details cu = Some d \<longrightarrow>
      process_response track end_time response start_time model_name ret_usage ret_cost
        = Inr (response,
               (if ret_usage then
                  Some \<lparr> usage_prompt_tokens = prompt_tokens cu,
                   usage_cached_prompt_tokens = cached_tokens d,
                   usage_completion_tokens = completion_tokens cu,
                   usage_total_tokens = total_tokens cu,
                   latency = end_time - start_time \<rparr>
                else None),
               Some (track model_name
                 \<lparr> usage_prompt_tokens = prompt_tokens cu,
                   usage_cached_prompt_tokens = cached_tokens d,
                   usage_completion_tokens = completion_tokens cu,
                   usage_total_tokens = total_tokens cu,
                   latency = end_time - start_time \<rparr>)))"
  by (intro conjI impI; (elim conjE)?; (elim disjE)?;
      simp add: process_response_def wrapper_def build_usage_def Let_def)

theorem calculate_cost_and_usage_result_witness:
  "wrapper (\<lambda>m u. usage_total_tokens u) 3 5 (Some ''gpt-4o'') None (Some False)
        (Inr \<lparr>choices = [] :: unit completion_message list, usage = None\<rparr>)
     = Inr (\<lparr>choices = [], usage = None\<rparr>, None, None)
   \<and> wrapper (\<lambda>m u. usage_total_tokens u) 3 5 (Some ''gpt-4o'') None (Some True)
        (Inr \<lparr>choices = [] :: unit completion_message list,
         usage = Some \<lparr>prompt_tokens = 7, prompt_tokens_details = Some \<lparr>cached_tokens = Some 2\<rparr>,
                  completion_tokens = 4, total_tokens = 11\<rparr>\<rparr>)
     = Inr (\<lparr>choices = [] :: unit completion_message list,
         usage = Some \<lparr>prompt_tokens = 7, prompt_tokens_details = Some \<lparr>cached_tokens = Some 2\<rparr>,
                  completion_tokens = 4, total_tokens = 11\<rparr>\<rparr>, None, Some 11)
   \<and> wrapper (\<lambda>m u. usage_total_tokens u) 3 5 (Some ''gpt-4o'') (Some True) (Some True)
        (Inr \<lparr>choices = [] :: unit completion_message list,
         usage = Some \<lparr>prompt_tokens = 7, prompt_tokens_details = Some \<lparr>cached_tokens = Some 2\<rparr>,
                  completion_tokens = 4, total_tokens = 11\<rparr>\<rparr>)
     = Inr (\<lparr>choices = [] :: unit completion_message list,
         usage = Some \<lparr>prompt_tokens = 7, prompt_tokens_details = Some \<lparr>cached_tokens = Some 2\<rparr>,
                  completion_tokens = 4, total_tokens = 11\<rparr>\<rparr>,
            Some \<lparr>usage_prompt_tokens = 7, usage_cached_prompt_tokens = Some 2,
                   usage_completion_tokens = 4, usage_total_tokens = 11, latency = 2\<rparr>,
            Some 11)
   \<and> process_response (\<lambda>m u. usage_total_tokens u) 5 \<lparr>choices = [] :: unit completion_message list, usage = None\<rparr> 3 ''gpt-4o''
      False False
     = Inr (\<lparr>choices = [], usage = None\<rparr>, None, None)
   \<and> process_response (\<lambda>m u. usage_total_tokens u) 5
        \<lparr>choices = [] :: unit completion_message list,
         usage = Some \<lparr>prompt_tokens = 7, prompt_tokens_details = Some \<lparr>cached_tokens = Some 2\<rparr>,
                  completion_tokens = 4, total_tokens = 11\<rparr>\<rparr> 3 ''gpt-4o'' False True
     = Inr (\<lparr>choices = [] :: unit completion_message list,
         usage = Some \<lparr>prompt_tokens = 7, prompt_tokens_details = Some \<lparr>cached_tokens = Some 2\<rparr>,
                  completion_tokens = 4, total_tokens = 11\<rparr>\<rparr>, None, Some 11)"
  using calculate_cost_and_usage_result
    [where ret_usage = False and ret_cost = False and track = "\<lambda>m u. usage_total_tokens u"
       and end_time = 5 and start_time = 3 and model_name = "''gpt-4o''"
       and kw_return_usage = None and kw_return_cost = "Some False"
       and response = "\<lparr>choices = [] :: unit completion_message list, usage = None\<rparr>"]
    calculate_cost_and_usage_result
    [where ret_usage = False and ret_cost = True and track = "\<lambda>m u. usage_total_tokens u"
       and end_time = 5 and start_time = 3 and model_name = "''gpt-4o''"
       and kw_return_usage = None
       and response = "\<lparr>choices = [] :: unit completion_message list,
         usage = Some \<lparr>prompt_tokens = 7, prompt_tokens_details = Some \<lparr>cached_tokens = Some 2\<rparr>,
                  completion_tokens = 4, total_tokens = 11\<rparr>\<rparr>"
       and cu = "\<lparr>prompt_tokens = 7, prompt_tokens_details = Some \<lparr>cached_tokens = Some 2\<rparr>,
                  completion_tokens = 4, total_tokens = 11\<rparr>"
       and d = "\<lparr>cached_tokens = Some 2\<rparr>"]
  by simp

section \<open>Properties of parameter merging\<close>

text \<open>
  Objects are only ever added to the store, and the one object changed in place is the
  copy made in the same round; \<open>take (length h) h1 = h\<close> says that every object of the
  store \<open>h\<close> is the same in \<open>h1\<close>.
\<close>

lemma take_trans:
  assumes "take (length h) h1 = h" "take (length h1) h2 = h1"
  shows "take (length h) h2 = h"
proof -
  have "length h \<le> length h1" using arg_cong [OF assms(1), of length] by simp
  then have "take (length h) (take (length h1) h2) = take (length h) h2"
    by (simp add: min_def)
  then show ?thesis using assms by simp
qed

lemma lookup_ext:
  assumes "take (length h) h1 = h" "a < length h"
  shows "lookup h1 a = lookup h a"
proof -
  have "length h \<le> length h1" using arg_cong [OF assms(1), of length] by simp
  moreover have "h1 ! a = h ! a" using assms by (metis nth_take)
  ultimately show ?thesis using assms(2) by (simp add: lookup_def)
qed

lemma list_at_ext:
  "take (length h) h1 = h \<Longrightarrow> wf_val h v \<Longrightarrow> list_at h1 v = list_at h v"
  by (cases v) (simp_all add: list_at_def wf_val_def lookup_ext)

lemma dict_at_ext:
  "take (length h) h1 = h \<Longrightarrow> wf_val h v \<Longrightarrow> dict_at h1 v = dict_at h v"
  by (cases v) (simp_all add: dict_at_def wf_val_def lookup_ext)

lemma truthy_ext:
  "take (length h) h1 = h \<Longrightarrow> wf_val h v \<Longrightarrow> truthy h1 v = truthy h v"
  by (cases v) (simp_all add: truthy_def wf_val_def lookup_ext)

lemma list_not_dict: "list_at h v = Some xs \<Longrightarrow> dict_at h v = None"
  by (cases v) (auto simp: list_at_def dict_at_def split: option.splits obj.splits)

lemma merge_field_store:
  assumes "merge_field self runtime merge_flags h field = (v, h1)"
  shows "take (length h) h1 = h"
  using assms
  by (auto simp: merge_field_def Let_def alloc_def store_set_def
      split: if_splits option.splits prod.splits)

lemma merge_fields_store:
  "merge_fields self runtime merge_flags fs merged h = (merged1, h1) \<Longrightarrow> take (length h) h1 = h"
proof (induction fs arbitrary: merged h)
  case Nil
  then show ?case by simp
next
  case (Cons f fs)
  obtain v h0 where mf: "merge_field self runtime merge_flags h f = (v, h0)"
    by (cases "merge_field self runtime merge_flags h f")
  with Cons.prems have "merge_fields self runtime merge_flags fs (AList.update f v merged) h0 = (merged1, h1)"
    by simp
  from Cons.IH [OF this] merge_field_store [OF mf] show ?case by (rule take_trans [rotated])
qed

lemma merged_dict_store:
  "merged_dict self h runtime merge_flags = (merged, h1) \<Longrightarrow> take (length h) h1 = h"
  by (auto simp: merged_dict_def split: prod.splits dest: merge_fields_store)

lemma merge_parameters_store:
  "merge_parameters valid self h runtime merge_flags = (res, h1) \<Longrightarrow> take (length h) h1 = h"
  by (auto simp: merge_parameters_def split: prod.splits dest: merged_dict_store)

lemma wf_val_ext:
  assumes "take (length h) h1 = h" "wf_val h v"
  shows "wf_val h1 v"
proof -
  have "length h \<le> length h1" using arg_cong [OF assms(1), of length] by simp
  then show ?thesis using assms(2) by (cases v) (simp_all add: wf_val_def)
qed

lemma dict_update_precedence:
  "distinct (map fst other) \<Longrightarrow> map_of (dict_update d other) = map_of d ++ map_of other"
  unfolding dict_update_def
proof (induction other arbitrary: d)
  case Nil
  then show ?case by simp
next
  case (Cons kv other)
  obtain k v where kv: "kv = (k, v)" by (cases kv)
  have nk: "map_of other k = None"
    using Cons.prems kv by (simp add: map_of_eq_None_iff)
  have step: "fold (\<lambda>kv. AList.update (fst kv) (snd kv)) (kv # other) d
          = fold (\<lambda>kv. AList.update (fst kv) (snd kv)) other (AList.update k v d)"
    by (simp add: kv)
  have "map_of (fold (\<lambda>kv. AList.update (fst kv) (snd kv)) other (AList.update k v d))
          = map_of (AList.update k v d) ++ map_of other"
    using Cons.IH Cons.prems by simp
  also have "\<dots> = (map_of d)(k \<mapsto> v) ++ map_of other" by (simp add: update_conv')
  also have "\<dots> = map_of d ++ map_of (kv # other)"
    using nk by (auto simp: kv map_add_def fun_eq_iff split: option.splits)
  finally show ?case unfolding step .
qed

lemma list_at_fresh: "list_at (h @ [OList zs]) (VRef (length h)) = Some zs"
  by (simp add: list_at_def lookup_def)

lemma dict_at_fresh: "dict_at (h @ [ODict d]) (VRef (length h)) = Some d"
  by (simp add: dict_at_def lookup_def)

lemma list_at_VNone: "list_at h VNone = None" "dict_at h VNone = None"
  by (simp_all add: list_at_def dict_at_def)

text \<open>The three outcomes of one round of the loop.\<close>

lemma merge_field_lists:
  assumes "map_of fl field = Some f" "truthy h f"
    and "list_at h (default_value self field) = Some xs"
    and "list_at h (dict_get rt field) = Some ys"
  shows "merge_field self rt fl h field = (VRef (length h), h @ [OList (xs @ ys)])"
proof -
  have "default_value self field \<noteq> VNone" "dict_get rt field \<noteq> VNone"
    using assms(3,4) list_at_VNone by force+
  then show ?thesis using assms by (simp add: merge_field_def Let_def alloc_def)
qed

lemma merge_field_dicts:
  assumes "map_of fl field = Some f" "truthy h f"
    and "dict_at h (default_value self field) = Some dd"
    and "dict_at h (dict_get rt field) = Some rd"
  shows "merge_field self rt fl h field = (VRef (length h), h @ [ODict (dict_update dd rd)])"
proof -
  have ne: "default_value self field \<noteq> VNone" "dict_get rt field \<noteq> VNone"
    using assms(3,4) list_at_VNone by force+
  have nl: "list_at h (default_value self field) = None"
    using assms(3) list_not_dict [of h "default_value self field"]
    by (cases "list_at h (default_value self field)") auto
  show ?thesis using assms ne nl
    by (simp add: merge_field_def Let_def alloc_def store_set_def)
qed

lemma merge_field_override:
  assumes "(case map_of fl field of None \<Rightarrow> False | Some f \<Rightarrow> truthy h f) = False
           \<or> ((list_at h (default_value self field) = None \<or> list_at h (dict_get rt field) = None)
              \<and> (dict_at h (default_value self field) = None
                 \<or> dict_at h (dict_get rt field) = None))"
  shows "merge_field self rt fl h field =
           (if dict_get rt field \<noteq> VNone then dict_get rt field else default_value self field, h)"
  using assms
  by (auto simp: merge_field_def Let_def split: option.splits)

text \<open>One round of the loop, read off the store the call started with.\<close>

lemma merge_field_result:
  assumes ext: "take (length h0) h = h0"
    and wf: "wf_val h0 dv" "wf_val h0 rv" "\<forall>f. map_of fl field = Some f \<longrightarrow> wf_val h0 f"
    and dv: "dv = default_value self field" and rv: "rv = dict_get rt field"
    and flag: "flag = (case map_of fl field of None \<Rightarrow> False | Some f \<Rightarrow> truthy h0 f)"
    and res: "merge_field self rt fl h field = (v, h1)"
  shows "flag \<and> list_at h0 dv = Some xs \<and> list_at h0 rv = Some ys \<longrightarrow> list_at h1 v = Some (xs @ ys)"
    and "flag \<and> dict_at h0 dv = Some dd \<and> dict_at h0 rv = Some rd
           \<longrightarrow> dict_at h1 v = Some (dict_update dd rd)"
    and "\<not> flag \<or> ((list_at h0 dv = None \<or> list_at h0 rv = None)
                     \<and> (dict_at h0 dv = None \<or> dict_at h0 rv = None))
           \<longrightarrow> v = (if rv \<noteq> VNone then rv else dv)"
    and "wf_val h1 v"
proof -
  have l: "list_at h dv = list_at h0 dv" "list_at h rv = list_at h0 rv"
    and d: "dict_at h dv = dict_at h0 dv" "dict_at h rv = dict_at h0 rv"
    using ext wf by (simp_all add: list_at_ext dict_at_ext)
  have f: "(case map_of fl field of None \<Rightarrow> False | Some f \<Rightarrow> truthy h f) = flag"
    using ext wf(3) flag by (auto simp: truthy_ext split: option.splits)
  have wfh: "wf_val h dv" "wf_val h rv" using wf ext wf_val_ext by blast+
  have h1: "take (length h) h1 = h" using merge_field_store [OF res] .
  show c1: "flag \<and> list_at h0 dv = Some xs \<and> list_at h0 rv = Some ys \<longrightarrow> list_at h1 v = Some (xs @ ys)"
  proof
    assume a: "flag \<and> list_at h0 dv = Some xs \<and> list_at h0 rv = Some ys"
    then obtain fv where fv: "map_of fl field = Some fv" "truthy h fv"
      using f by (auto split: option.splits)
    have "merge_field self rt fl h field = (VRef (length h), h @ [OList (xs @ ys)])"
      using merge_field_lists [OF fv] a l dv rv by simp
    with res show "list_at h1 v = Some (xs @ ys)" by (auto simp: list_at_fresh)
  qed
  show c2: "flag \<and> dict_at h0 dv = Some dd \<and> dict_at h0 rv = Some rd
           \<longrightarrow> dict_at h1 v = Some (dict_update dd rd)"
  proof
    assume a: "flag \<and> dict_at h0 dv = Some dd \<and> dict_at h0 rv = Some rd"
    then obtain fv where fv: "map_of fl field = Some fv" "truthy h fv"
      using f by (auto split: option.splits)
    have "merge_field self rt fl h field = (VRef (length h), h @ [ODict (dict_update dd rd)])"
      using merge_field_dicts [OF fv] a d dv rv by simp
    with res show "dict_at h1 v = Some (dict_update dd rd)" by (auto simp: dict_at_fresh)
  qed
  show c3: "\<not> flag \<or> ((list_at h0 dv = None \<or> list_at h0 rv = None)
                     \<and> (dict_at h0 dv = None \<or> dict_at h0 rv = None))
           \<longrightarrow> v = (if rv \<noteq> VNone then rv else dv)"
  proof
    assume a: "\<not> flag \<or> ((list_at h0 dv = None \<or> list_at h0 rv = None)
                     \<and> (dict_at h0 dv = None \<or> dict_at h0 rv = None))"
    have "merge_field self rt fl h field =
           (if dict_get rt field \<noteq> VNone then dict_get rt field else default_value self field, h)"
      by (rule merge_field_override) (use a f l d dv rv in auto)
    with res show "v = (if rv \<noteq> VNone then rv else dv)" using dv rv by auto
  qed
  show "wf_val h1 v"
  proof (cases "v = rv \<or> v = dv")
    case True
    then show ?thesis using wfh h1 wf_val_ext by blast
  next
    case False
    have lh: "length h < length h1 \<and> v = VRef (length h)"
      using res False dv rv
      by (auto simp: merge_field_def Let_def alloc_def store_set_def
          split: if_splits option.splits)
    then show ?thesis by (simp add: wf_val_def)
  qed
qed

lemma merge_fields_other_keys:
  "merge_fields self rt fl fs merged h = (m1, h1) \<Longrightarrow> k \<notin> set fs \<Longrightarrow> map_of m1 k = map_of merged k"
proof (induction fs arbitrary: merged h)
  case Nil
  then show ?case by simp
next
  case (Cons f fs)
  obtain v h0 where mf: "merge_field self rt fl h f = (v, h0)"
    by (cases "merge_field self rt fl h f")
  with Cons.prems have r: "merge_fields self rt fl fs (AList.update f v merged) h0 = (m1, h1)"
    by simp
  have "map_of m1 k = map_of (AList.update f v merged) k"
    using Cons.IH [OF r] Cons.prems(2) by simp
  then show ?case using Cons.prems(2) by (simp add: update_conv')
qed

lemma merge_fields_keys:
  "merge_fields self rt fl fs merged h = (m1, h1) \<Longrightarrow> fst ` set m1 = fst ` set merged \<union> set fs"
proof (induction fs arbitrary: merged h)
  case Nil
  then show ?case by simp
next
  case (Cons f fs)
  obtain v h0 where mf: "merge_field self rt fl h f = (v, h0)"
    by (cases "merge_field self rt fl h f")
  with Cons.prems have r: "merge_fields self rt fl fs (AList.update f v merged) h0 = (m1, h1)"
    by simp
  show ?case using Cons.IH [OF r] by (auto simp: dom_update)
qed

lemma merge_fields_result:
  assumes "merge_fields self rt fl fs merged h = (m1, h1)"
    and "take (length h0) h = h0" and "distinct fs" and "field \<in> set fs"
    and wf: "wf_val h0 dv" "wf_val h0 rv" "\<forall>f. map_of fl field = Some f \<longrightarrow> wf_val h0 f"
    and dv: "dv = default_value self field" and rv: "rv = dict_get rt field"
    and flag: "flag = (case map_of fl field of None \<Rightarrow> False | Some f \<Rightarrow> truthy h0 f)"
  shows "\<exists>v. map_of m1 field = Some v
     \<and> (flag \<and> list_at h0 dv = Some xs \<and> list_at h0 rv = Some ys
          \<longrightarrow> list_at h1 v = Some (xs @ ys))
     \<and> (flag \<and> dict_at h0 dv = Some dd \<and> dict_at h0 rv = Some rd
          \<longrightarrow> dict_at h1 v = Some (dict_update dd rd))
     \<and> (\<not> flag \<or> ((list_at h0 dv = None \<or> list_at h0 rv = None)
                    \<and> (dict_at h0 dv = None \<or> dict_at h0 rv = None))
          \<longrightarrow> v = (if rv \<noteq> VNone then rv else dv))"
  using assms(1-4)
proof (induction fs arbitrary: merged h)
  case Nil
  then show ?case by simp
next
  case (Cons f fs)
  obtain v h' where mf: "merge_field self rt fl h f = (v, h')"
    by (cases "merge_field self rt fl h f")
  with Cons.prems(1) have r: "merge_fields self rt fl fs (AList.update f v merged) h' = (m1, h1)"
    by simp
  have e': "take (length h0) h' = h0"
    using take_trans [OF Cons.prems(2) merge_field_store [OF mf]] .
  show ?case
  proof (cases "field = f")
    case True
    then have nf: "field \<notin> set fs" using Cons.prems(3) by simp
    have mv: "map_of m1 field = Some v"
      using merge_fields_other_keys [OF r nf] True by (simp add: update_conv')
    have mf': "merge_field self rt fl h field = (v, h')" using mf True by simp
    note R = merge_field_result [OF Cons.prems(2) wf dv rv flag mf']
    have ext: "take (length h') h1 = h'" using merge_fields_store [OF r] .
    have l: "list_at h1 v = list_at h' v" and d: "dict_at h1 v = dict_at h' v"
      using ext R(4) by (simp_all add: list_at_ext dict_at_ext)
    show ?thesis using mv R(1) [of xs ys] R(2) [of dd rd] R(3) l d by auto
  next
    case False
    then have "field \<in> set fs" using Cons.prems(4) by simp
    moreover have "distinct fs" using Cons.prems(3) by simp
    ultimately show ?thesis using Cons.IH [OF r e'] by blast
  qed
qed

lemma add_runtime_keys_keeps:
  "k \<in> fst ` set merged \<Longrightarrow> map_of (add_runtime_keys rt merged) k = map_of merged k"
proof (induction rt arbitrary: merged)
  case Nil
  then show ?case by simp
next
  case (Cons kv rt)
  obtain key v where kv: "kv = (key, v)" by (cases kv)
  show ?case
  proof (cases "key \<in> set (map fst merged)")
    case True
    then show ?thesis using Cons kv by simp
  next
    case False
    then have "key \<noteq> k" using Cons.prems by auto
    moreover have "k \<in> fst ` set (AList.update key v merged)"
      using Cons.prems by (simp add: dom_update)
    ultimately show ?thesis
      using Cons.IH [of "AList.update key v merged"] False kv by (simp add: update_conv')
  qed
qed

lemma add_runtime_keys_superset:
  "k \<in> fst ` set merged \<Longrightarrow> k \<in> fst ` set (add_runtime_keys rt merged)"
proof (induction rt arbitrary: merged)
  case Nil
  then show ?case by simp
next
  case (Cons kv rt)
  obtain key v where kv: "kv = (key, v)" by (cases kv)
  define m' where "m' = (if key \<notin> set (map fst merged) then AList.update key v merged else merged)"
  have "k \<in> fst ` set m'"
    using Cons.prems unfolding m'_def by (simp only: dom_update split: if_splits) simp
  from Cons.IH [OF this] have "k \<in> fst ` set (add_runtime_keys rt m')" .
  moreover have "add_runtime_keys (kv # rt) merged = add_runtime_keys rt m'"
    unfolding kv m'_def by (simp only: add_runtime_keys.simps)
  ultimately show ?case by simp
qed

lemma distinct_model_fields: "distinct model_fields"
  by (simp add: model_fields_def)

lemma new_params_field:
  assumes "new_BaseLLMCallParams valid h m = Inr p" "field \<in> set model_fields"
  shows "params_get p field = dict_get m field"
proof -
  have p: "p = \<lparr> params_messages = dict_get m ''messages'',
                  params_model = dict_get m ''model'',
                  params_user = dict_get m ''user'',
                  params_tools = dict_get m ''tools'',
                  params_tool_choice = dict_get m ''tool_choice'',
                  params_reasoning_effort = dict_get m ''reasoning_effort'',
                  params_structured_model = dict_get m ''structured_model'' \<rparr>"
    using assms(1) unfolding new_BaseLLMCallParams_def Let_def
    by (simp split: if_splits)
  from assms(2) have "field = ''messages'' \<or> field = ''model'' \<or> field = ''user''
      \<or> field = ''tools'' \<or> field = ''tool_choice'' \<or> field = ''reasoning_effort''
      \<or> field = ''structured_model''"
    by (simp add: model_fields_def)
  then show ?thesis
    by (elim disjE) (simp_all add: p params_get_def)
qed

lemma merged_dict_field:
  assumes "merged_dict self h runtime merge_flags = (merged, h1)"
    and "field \<in> set model_fields"
  obtains m0 where "merge_fields self runtime merge_flags model_fields [] h = (m0, h1)"
    and "map_of merged field = map_of m0 field"
proof -
  obtain m0 h' where mf: "merge_fields self runtime merge_flags model_fields [] h = (m0, h')"
    by (cases "merge_fields self runtime merge_flags model_fields [] h")
  with assms(1) have eq: "merged = add_runtime_keys runtime m0" "h1 = h'"
    by (simp_all add: merged_dict_def)
  have "field \<in> fst ` set m0" using merge_fields_keys [OF mf] assms(2) by simp
  then have "map_of merged field = map_of m0 field"
    unfolding eq by (rule add_runtime_keys_keeps)
  with mf eq that show thesis by blast
qed

text \<open>
  Claim C6.  For every recognized field, with the default the code selects for it (the
  client's attribute for model, tools, tool_choice, reasoning_effort and user; none for
  messages and structured_model): when the merge flag is true and default and override are
  both lists, the merged value is a list holding the default's elements followed by the
  override's; when both are dictionaries, it is a dictionary holding the default's entries
  updated with the override's, so that the override wins on a shared key; in every other
  case it is the override if present, else the default, else \<^verbatim>\<open>None\<close>.  The returned
  parameters carry the merged value.  References are assumed to point into the store.
\<close>

theorem merge_parameters_effective_value:
  assumes "field \<in> set model_fields"
    and "wf_val h dv" and "wf_val h rv"
    and "\<forall>f. map_of merge_flags field = Some f \<longrightarrow> wf_val h f"
    and "dv = default_value self field" and "rv = dict_get runtime field"
    and "flag = (case map_of merge_flags field of None \<Rightarrow> False | Some f \<Rightarrow> truthy h f)"
    and "merged_dict self h runtime merge_flags = (merged, h1)"
  shows "\<exists>v. map_of merged field = Some v
     \<and> (flag \<and> list_at h dv = Some xs \<and> list_at h rv = Some ys
          \<longrightarrow> list_at h1 v = Some (xs @ ys))
     \<and> (flag \<and> dict_at h dv = Some dd \<and> dict_at h rv = Some rd
          \<longrightarrow> dict_at h1 v = Some (dict_update dd rd)
            \<and> (distinct (map fst rd) \<longrightarrow> map_of (dict_update dd rd) = map_of dd ++ map_of rd))
     \<and> (\<not> flag \<or> ((list_at h dv = None \<or> list_at h rv = None)
                    \<and> (dict_at h dv = None \<or> dict_at h rv = None))
          \<longrightarrow> v = (if rv \<noteq> VNone then rv else dv))
     \<and> (\<forall>p h2. merge_parameters valid self h runtime merge_flags = (Inr p, h2)
          \<longrightarrow> h2 = h1 \<and> params_get p field = v)"
proof -
  obtain m0 where mf: "merge_fields self runtime merge_flags model_fields [] h = (m0, h1)"
    and eq: "map_of merged field = map_of m0 field"
    using merged_dict_field [OF assms(8,1)] by blast
  have t: "take (length h) h = h" by simp
  have "\<exists>v. map_of m0 field = Some v
     \<and> (flag \<and> list_at h dv = Some xs \<and> list_at h rv = Some ys
          \<longrightarrow> list_at h1 v = Some (xs @ ys))
     \<and> (flag \<and> dict_at h dv = Some dd \<and> dict_at h rv = Some rd
          \<longrightarrow> dict_at h1 v = Some (dict_update dd rd))
     \<and> (\<not> flag \<or> ((list_at h dv = None \<or> list_at h rv = None)
                    \<and> (dict_at h dv = None \<or> dict_at h rv = None))
          \<longrightarrow> v = (if rv \<noteq> VNone then rv else dv))"
    by (rule merge_fields_result [OF mf t distinct_model_fields assms(1,2,3,4,5,6,7)])
  then obtain v where v: "map_of m0 field = Some v
     \<and> (flag \<and> list_at h dv = Some xs \<and> list_at h rv = Some ys
          \<longrightarrow> list_at h1 v = Some (xs @ ys))
     \<and> (flag \<and> dict_at h dv = Some dd \<and> dict_at h rv = Some rd
          \<longrightarrow> dict_at h1 v = Some (dict_update dd rd))
     \<and> (\<not> flag \<or> ((list_at h dv = None \<or> list_at h rv = None)
                    \<and> (dict_at h dv = None \<or> dict_at h rv = None))
          \<longrightarrow> v = (if rv \<noteq> VNone then rv else dv))" ..
  then have v1: "map_of m0 field = Some v" by (rule conjunct1)
  have pv: "\<forall>p h2. merge_parameters valid self h runtime merge_flags = (Inr p, h2)
          \<longrightarrow> h2 = h1 \<and> params_get p field = v"
  proof (intro allI impI)
    fix p h2
    assume "merge_parameters valid self h runtime merge_flags = (Inr p, h2)"
    then have "h2 = h1" and np: "new_BaseLLMCallParams valid h1 merged = Inr p"
      using assms(8) by (auto simp: merge_parameters_def)
    moreover have "params_get p field = dict_get merged field"
      using new_params_field [OF np assms(1)] .
    ultimately show "h2 = h1 \<and> params_get p field = v"
      using eq v1 by (simp add: dict_get_def)
  qed
  have pr: "distinct (map fst rd) \<longrightarrow> map_of (dict_update dd rd) = map_of dd ++ map_of rd"
    using dict_update_precedence [of rd dd] by blast
  have mv: "map_of merged field = Some v" using eq v1 by simp
  show ?thesis
    apply (rule exI [of _ v])
    using v mv pv pr by blast
qed

text \<open>
  The example of the claim: default tools \<open>[a, b]\<close> and override \<open>[c]\<close> give \<open>[a, b, c]\<close> with
  the flag set, and the override list itself with the flag cleared.
\<close>

theorem merge_parameters_effective_value_witness:
  "let self = \<lparr>self_model_name = VStr ''gpt-4o'', self_messages = VNone,
            self_reasoning_effort = VNone, self_tools = VRef 0, self_tool_choice = VNone,
            self_user = VNone, self_use_async = False, self_client = ()\<rparr>;
       h = [OList [VStr ''a'', VStr ''b''], OList [VStr ''c'']];
       runtime = [(''tools'', VRef 1)];
       merged_on = merged_dict self h runtime [(''tools'', VBool True)];
       merged_off = merged_dict self h runtime [(''tools'', VBool False)]
   in list_at (snd merged_on) (dict_get (fst merged_on) ''tools'')
        = Some [VStr ''a'', VStr ''b'', VStr ''c'']
    \<and> dict_get (fst merged_off) ''tools'' = VRef 1
    \<and> list_at (snd merged_off) (VRef 1) = Some [VStr ''c'']"
proof -
  define self :: "unit client" where "self = \<lparr>self_model_name = VStr ''gpt-4o'', self_messages = VNone,
            self_reasoning_effort = VNone, self_tools = VRef 0, self_tool_choice = VNone,
            self_user = VNone, self_use_async = False, self_client = ()\<rparr>"
  define h where "h = [OList [VStr ''a'', VStr ''b''], OList [VStr ''c'']]"
  define runtime where "runtime = [(''tools'', VRef 1)]"
  define on where "on = merged_dict self h runtime [(''tools'', VBool True)]"
  define off where "off = merged_dict self h runtime [(''tools'', VBool False)]"
  have f: "''tools'' \<in> set model_fields" by (simp add: model_fields_def)
  have dv: "VRef 0 = default_value self ''tools''" by (simp add: default_value_def self_def)
  have rv: "VRef 1 = dict_get runtime ''tools''" by (simp add: dict_get_def runtime_def)
  have w: "wf_val h (VRef 0)" "wf_val h (VRef 1)" by (simp_all add: wf_val_def h_def)
  have l: "list_at h (VRef 0) = Some [VStr ''a'', VStr ''b'']"
          "list_at h (VRef 1) = Some [VStr ''c'']"
    by (simp_all add: list_at_def lookup_def h_def)
  have "\<exists>v. map_of (fst on) ''tools'' = Some v
          \<and> list_at (snd on) v = Some ([VStr ''a'', VStr ''b''] @ [VStr ''c''])"
    using merge_parameters_effective_value
      [where field = "''tools''" and h = h and dv = "VRef 0" and rv = "VRef 1"
         and merge_flags = "[(''tools'', VBool True)]" and self = self and runtime = runtime
         and flag = True and merged = "fst on" and ?h1.0 = "snd on"
         and xs = "[VStr ''a'', VStr ''b'']" and ys = "[VStr ''c'']"
         and dd = "[]" and rd = "[]" and valid = "\<lambda>st p. True", OF f w _ dv rv]
      l
    by (auto simp: on_def wf_val_def truthy_def)
  then have a: "list_at (snd on) (dict_get (fst on) ''tools'')
                  = Some [VStr ''a'', VStr ''b'', VStr ''c'']"
    by (auto simp: dict_get_def)
  have "\<exists>v. map_of (fst off) ''tools'' = Some v \<and> v = VRef 1"
    using merge_parameters_effective_value
      [where field = "''tools''" and h = h and dv = "VRef 0" and rv = "VRef 1"
         and merge_flags = "[(''tools'', VBool False)]" and self = self and runtime = runtime
         and flag = False and merged = "fst off" and ?h1.0 = "snd off"
         and xs = "[]" and ys = "[]" and dd = "[]" and rd = "[]"
         and valid = "\<lambda>st p. True", OF f w _ dv rv]
    by (auto simp: off_def wf_val_def truthy_def)
  then have b: "dict_get (fst off) ''tools'' = VRef 1"
    by (auto simp: dict_get_def)
  have "take (length h) (snd off) = h"
    using merged_dict_store [of self h runtime "[(''tools'', VBool False)]" "fst off" "snd off"]
    by (simp add: off_def)
  then have c: "list_at (snd off) (VRef 1) = Some [VStr ''c'']"
    using l(2) w(2) by (simp add: list_at_ext)
  show ?thesis
    using a b c unfolding Let_def self_def h_def runtime_def on_def off_def by simp
qed

text \<open>Two runtime dictionaries that agree on the declared fields give the same round.\<close>

lemma merge_field_runtime_cong:
  "dict_get rt field = dict_get rt' field \<Longrightarrow>
   merge_field self rt fl h field = merge_field self rt' fl h field"
  by (simp add: merge_field_def)

lemma merge_fields_runtime_cong:
  "\<forall>f \<in> set fs. dict_get rt f = dict_get rt' f \<Longrightarrow>
   merge_fields self rt fl fs merged h = merge_fields self rt' fl fs merged h"
proof (induction fs arbitrary: merged h)
  case Nil
  then show ?case by simp
next
  case (Cons f fs)
  have eq: "merge_field self rt fl h f = merge_field self rt' fl h f"
    by (rule merge_field_runtime_cong) (use Cons.prems in simp)
  obtain v h' where mf: "merge_field self rt' fl h f = (v, h')"
    by (cases "merge_field self rt' fl h f")
  have "\<forall>f \<in> set fs. dict_get rt f = dict_get rt' f" using Cons.prems by simp
  from Cons.IH [OF this]
  have ih: "merge_fields self rt fl fs (AList.update f v merged) h'
          = merge_fields self rt' fl fs (AList.update f v merged) h'" .
  show ?case by (simp add: eq mf ih)
qed

lemma new_params_cong:
  assumes "\<forall>f \<in> set model_fields. dict_get m f = dict_get m' f"
    and "set model_fields \<subseteq> fst ` set m" and "set model_fields \<subseteq> fst ` set m'"
  shows "new_BaseLLMCallParams valid h m = new_BaseLLMCallParams valid h m'"
proof -
  have "dict_get m ''messages'' = dict_get m' ''messages''"
       "dict_get m ''model'' = dict_get m' ''model''"
       "dict_get m ''user'' = dict_get m' ''user''"
       "dict_get m ''tools'' = dict_get m' ''tools''"
       "dict_get m ''tool_choice'' = dict_get m' ''tool_choice''"
       "dict_get m ''reasoning_effort'' = dict_get m' ''reasoning_effort''"
       "dict_get m ''structured_model'' = dict_get m' ''structured_model''"
    using assms(1) by (simp_all add: model_fields_def)
  then show ?thesis
    using assms(2,3) unfolding new_BaseLLMCallParams_def by simp
qed

text \<open>The returned parameters depend on the runtime dictionary through the seven declared keys only.\<close>

lemma merge_parameters_recognized_keys_only:
  assumes "\<forall>f \<in> set model_fields. dict_get rt f = dict_get rt' f"
  shows "merge_parameters valid self h rt fl = merge_parameters valid self h rt' fl"
proof -
  obtain m0 h1 where mf: "merge_fields self rt fl model_fields [] h = (m0, h1)"
    by (cases "merge_fields self rt fl model_fields [] h")
  then have mf': "merge_fields self rt' fl model_fields [] h = (m0, h1)"
    using merge_fields_runtime_cong [OF assms] by metis
  have keys: "set model_fields \<subseteq> fst ` set m0"
    using merge_fields_keys [OF mf] by simp
  have "new_BaseLLMCallParams valid h1 (add_runtime_keys rt m0)
          = new_BaseLLMCallParams valid h1 (add_runtime_keys rt' m0)"
  proof (rule new_params_cong)
    show "\<forall>f \<in> set model_fields.
            dict_get (add_runtime_keys rt m0) f = dict_get (add_runtime_keys rt' m0) f"
    proof
      fix f assume "f \<in> set model_fields"
      then have "f \<in> fst ` set m0" using keys by blast
      then show "dict_get (add_runtime_keys rt m0) f = dict_get (add_runtime_keys rt' m0) f"
        by (simp only: dict_get_def add_runtime_keys_keeps)
    qed
    show "set model_fields \<subseteq> fst ` set (add_runtime_keys rt m0)"
      using keys add_runtime_keys_superset by blast
    show "set model_fields \<subseteq> fst ` set (add_runtime_keys rt' m0)"
      using keys add_runtime_keys_superset by blast
  qed
  then show ?thesis using mf mf' by (simp add: merge_parameters_def merged_dict_def)
qed

text \<open>
  Claim C7 (as the code behaves).  The claim says that a runtime key that is no declared
  field passes through into the returned parameters.  The second loop does put the key
  \<^verbatim>\<open>temperature\<close> into \<open>merged\<close>, but the constructor keeps the seven declared fields only:
  the returned parameters are the same as without the key.
\<close>

theorem merge_parameters_drops_unrecognized_key:
  "let self = \<lparr>self_model_name = VStr ''gpt-4o'', self_messages = VNone,
            self_reasoning_effort = VNone, self_tools = VNone, self_tool_choice = VNone,
            self_user = VNone, self_use_async = False, self_client = ()\<rparr>;
       h = [OList [VRef 1], OObject [(''role'', VStr ''user'')]];
       runtime = [(''temperature'', VInt 1), (''messages'', VRef 0)]
   in ''temperature'' \<notin> set model_fields
    \<and> map_of (fst (merged_dict self h runtime [])) ''temperature'' = Some (VInt 1)
    \<and> merge_parameters (\<lambda>st p. True) self h runtime []
        = (Inr \<lparr>params_messages = VRef 0, params_model = VStr ''gpt-4o'',
                 params_user = VNone, params_tools = VNone, params_tool_choice = VNone,
                 params_reasoning_effort = VNone, params_structured_model = VNone\<rparr>, h)
    \<and> merge_parameters (\<lambda>st p. True) self h runtime []
        = merge_parameters (\<lambda>st p. True) self h [(''messages'', VRef 0)] []"
  by (simp add: Let_def model_fields_def merge_parameters_def merged_dict_def merge_field_def
      default_value_def dict_get_def new_BaseLLMCallParams_def)

section \<open>Frame of the public call methods\<close>

text \<open>
  A role rewriting changes no other object of the store, and of the object it changes
  only the attribute \<^verbatim>\<open>role\<close>.
\<close>

lemma rewrite_role_length: "length (rewrite_role h m t) = length h"
  by (simp add: rewrite_role_def store_set_def split: val.splits option.splits obj.splits)

lemma rewrite_role_nth:
  "rewrite_role h m t ! a = h ! a
   \<or> (m = VRef a \<and> a < length h
       \<and> (\<exists>ats. h ! a = OObject ats
              \<and> rewrite_role h m t ! a = OObject (AList.update ''role'' (VStr t) ats)))"
proof (cases "m = VRef a \<and> a < length h")
  case True
  then show ?thesis
    by (auto simp: rewrite_role_def store_set_def lookup_def
        split: option.splits obj.splits if_splits)
next
  case False
  then have "rewrite_role h m t ! a = h ! a"
    by (auto simp: rewrite_role_def store_set_def lookup_def nth_list_update
        split: val.splits option.splits obj.splits if_splits)
  then show ?thesis by simp
qed

lemma convert_roles_length: "length (convert_roles_in_store h ms t) = length h"
  by (induction ms arbitrary: h) (simp_all add: rewrite_role_length)

lemma convert_roles_nth:
  "convert_roles_in_store h ms t ! a = h ! a
   \<or> (VRef a \<in> set ms \<and> a < length h
       \<and> (\<exists>ats. h ! a = OObject ats
              \<and> convert_roles_in_store h ms t ! a = OObject (AList.update ''role'' (VStr t) ats)))"
proof (induction ms arbitrary: h)
  case Nil
  then show ?case by simp
next
  case (Cons m ms)
  let ?h1 = "rewrite_role h m t"
  have len: "length ?h1 = length h" by (rule rewrite_role_length)
  from Cons.IH [of ?h1]
  consider (same) "convert_roles_in_store ?h1 ms t ! a = ?h1 ! a"
    | (changed) ats where "VRef a \<in> set ms" "a < length ?h1" "?h1 ! a = OObject ats"
        "convert_roles_in_store ?h1 ms t ! a = OObject (AList.update ''role'' (VStr t) ats)"
    by blast
  then show ?case
  proof cases
    case same
    from rewrite_role_nth [of h m t a] show ?thesis
    proof
      assume "?h1 ! a = h ! a"
      then show ?thesis using same by simp
    next
      assume "m = VRef a \<and> a < length h
       \<and> (\<exists>ats. h ! a = OObject ats \<and> ?h1 ! a = OObject (AList.update ''role'' (VStr t) ats))"
      then show ?thesis using same by auto
    qed
  next
    case changed
    have ms: "VRef a \<in> set (m # ms)" using changed(1) by simp
    have al: "a < length h" using changed(2) len by simp
    from rewrite_role_nth [of h m t a] show ?thesis
    proof
      assume "?h1 ! a = h ! a"
      then have "h ! a = OObject ats" using changed(3) by simp
      moreover have "convert_roles_in_store h (m # ms) t ! a
                       = OObject (AList.update ''role'' (VStr t) ats)"
        using changed(4) by simp
      ultimately show ?thesis using ms al by blast
    next
      assume "m = VRef a \<and> a < length h
       \<and> (\<exists>ats. h ! a = OObject ats \<and> ?h1 ! a = OObject (AList.update ''role'' (VStr t) ats))"
      then obtain ats0 where h0: "h ! a = OObject ats0"
        and h1: "?h1 ! a = OObject (AList.update ''role'' (VStr t) ats0)" by blast
      have "ats = AList.update ''role'' (VStr t) ats0" using changed(3) h1 by simp
      then have "convert_roles_in_store h (m # ms) t ! a
                   = OObject (AList.update ''role'' (VStr t) ats0)"
        using changed(4) by simp
      then show ?thesis using h0 ms al by blast
    qed
  qed
qed

text \<open>What \<open>_set_messages\<close> leaves of the store: the same objects, but for the role of messages.\<close>

lemma set_messages_in_store_frame:
  assumes "set_messages_in_store h model_name messages init_call = (res, h1)"
  shows "length h1 = length h"
    and "h1 ! a = h ! a
       \<or> (VRef a \<in> set (message_refs h messages) \<and> a < length h
           \<and> (\<exists>ats t. h ! a = OObject ats \<and> h1 ! a = OObject (AList.update ''role'' (VStr t) ats)))"
proof -
  have "h1 = h \<or> (\<exists>t. h1 = convert_roles_in_store h (message_refs h messages) t)"
    using assms
    by (auto simp: set_messages_in_store_def Let_def split: if_splits prod.splits)
  then show "length h1 = length h"
    by (auto simp: convert_roles_length)
  from \<open>h1 = h \<or> (\<exists>t. h1 = convert_roles_in_store h (message_refs h messages) t)\<close>
  show "h1 ! a = h ! a
       \<or> (VRef a \<in> set (message_refs h messages) \<and> a < length h
           \<and> (\<exists>ats t. h ! a = OObject ats \<and> h1 ! a = OObject (AList.update ''role'' (VStr t) ats)))"
  proof
    assume "h1 = h" then show ?thesis by simp
  next
    assume "\<exists>t. h1 = convert_roles_in_store h (message_refs h messages) t"
    then obtain t where "h1 = convert_roles_in_store h (message_refs h messages) t" ..
    then show ?thesis using convert_roles_nth [of h "message_refs h messages" t a] by blast
  qed
qed

lemma decorated_call_frame:
  assumes "decorated_call body track t0 t1 prepare transport self h model_name sm params ru rc
             = (res, self1, h1)"
  shows "self1 = self" and "length h1 = length h"
    and "h1 ! a = h ! a
       \<or> (VRef a \<in> set (message_refs h (params_messages params)) \<and> a < length h
           \<and> (\<exists>ats t. h ! a = OObject ats \<and> h1 ! a = OObject (AList.update ''role'' (VStr t) ats)))"
proof -
  obtain r h' where sm: "set_messages_in_store h (params_model params) (params_messages params) False
                           = (r, h')"
    by (cases "set_messages_in_store h (params_model params) (params_messages params) False")
  have hh: "h1 = h \<or> h1 = h'" and s: "self1 = self"
    using assms sm by (auto simp: decorated_call_def split: if_splits sum.splits)
  show "self1 = self" by (rule s)
  show "length h1 = length h" using hh set_messages_in_store_frame(1) [OF sm] by auto
  show "h1 ! a = h ! a
       \<or> (VRef a \<in> set (message_refs h (params_messages params)) \<and> a < length h
           \<and> (\<exists>ats t.  h ! a = OObject ats \<and> h1 ! a = OObject (AList.update ''role'' (VStr t) ats)))"
    using hh set_messages_in_store_frame(2) [OF sm, of a] by auto
qed

lemma validate_client_frame:
  "validate_client init_client self use_async = (e, self1) \<Longrightarrow>
     self1 = self\<lparr>self_client := self_client self1, self_use_async := self_use_async self1\<rparr>"
  by (auto simp: validate_client_def split: if_splits sum.splits)

lemma merge_field_no_default:
  "default_value self f = VNone \<Longrightarrow> merge_field self rt fl h f = (dict_get rt f, h)"
  by (simp add: merge_field_def Let_def)

lemma merge_fields_no_default:
  assumes "merge_fields self rt fl fs merged h = (m1, h1)"
    and "distinct fs" and "f \<in> set fs" and "default_value self f = VNone"
  shows "map_of m1 f = Some (dict_get rt f)"
  using assms(1-3)
proof (induction fs arbitrary: merged h)
  case Nil
  then show ?case by simp
next
  case (Cons g fs)
  obtain v h' where mf: "merge_field self rt fl h g = (v, h')"
    by (cases "merge_field self rt fl h g")
  with Cons.prems(1) have r: "merge_fields self rt fl fs (AList.update g v merged) h' = (m1, h1)"
    by simp
  show ?case
  proof (cases "f = g")
    case True
    then have "f \<notin> set fs" using Cons.prems(2) by simp
    from merge_fields_other_keys [OF r this]
    have "map_of m1 f = Some v" using True by (simp add: update_conv')
    moreover have "v = dict_get rt f"
      using mf True merge_field_no_default [OF assms(4), of rt fl h] by simp
    ultimately show ?thesis by simp
  next
    case False
    then show ?thesis using Cons.IH [OF r] Cons.prems(2,3) by simp
  qed
qed

lemma merge_parameters_messages:
  assumes "merge_parameters valid self h rt fl = (Inr p, h1)"
  shows "params_messages p = dict_get rt ''messages''"
proof -
  obtain merged where md: "merged_dict self h rt fl = (merged, h1)"
    and np: "new_BaseLLMCallParams valid h1 merged = Inr p"
    using assms by (auto simp: merge_parameters_def split: prod.splits)
  have f: "''messages'' \<in> set model_fields" by (simp add: model_fields_def)
  obtain m0 where mf: "merge_fields self rt fl model_fields [] h = (m0, h1)"
    and eq: "map_of merged ''messages'' = map_of m0 ''messages''"
    using merged_dict_field [OF md f] by blast
  have d: "default_value self ''messages'' = VNone" by (simp add: default_value_def)
  have "map_of m0 ''messages'' = Some (dict_get rt ''messages'')"
    using merge_fields_no_default [OF mf distinct_model_fields f d] .
  then have "dict_get merged ''messages'' = dict_get rt ''messages''"
    using eq by (simp add: dict_get_def)
  moreover have "params_get p ''messages'' = params_messages p" by (simp add: params_get_def)
  ultimately show ?thesis using new_params_field [OF np f] by simp
qed

text \<open>
  The frame of the shared body, for a provider call that keeps the client and changes at
  most the role of messages it was given.
\<close>

lemma run_body_frame:
  assumes wf: "wf_val h messages"
    and call: "\<And>c st m p ru rc r c1 st1 a. call_api c st m p ru rc = (r, c1, st1) \<Longrightarrow>
        c1 = c \<and> length st1 = length st
        \<and> (st1 ! a = st ! a
           \<or> (VRef a \<in> set (message_refs st (params_messages p)) \<and> a < length st
               \<and> (\<exists>ats t. st ! a = OObject ats
                      \<and> st1 ! a = OObject (AList.update ''role'' (VStr t) ats))))"
    and run: "run_body init_client valid call_api use_async self h messages return_usage
                return_cost kwargs = (res, self1, h1)"
  shows "self_model_name self1 = self_model_name self
        \<and> self_messages self1 = self_messages self
        \<and> self_tools self1 = self_tools self
        \<and> self_tool_choice self1 = self_tool_choice self
        \<and> self_reasoning_effort self1 = self_reasoning_effort self
        \<and> self_user self1 = self_user self
        \<and> self1 = self\<lparr>self_client := self_client self1, self_use_async := self_use_async self1\<rparr>
        \<and> length h \<le> length h1
        \<and> (\<forall>a < length h.
              h1 ! a = h ! a
            \<or> (VRef a \<in> set (message_refs h messages)
                \<and> (\<exists>ats t. h ! a = OObject ats
                       \<and> h1 ! a = OObject (AList.update ''role'' (VStr t) ats))))"
proof -
  obtain e s1 where vc: "validate_client init_client self use_async = (e, s1)"
    by (cases "validate_client init_client self use_async")
  have fr: "s1 = self\<lparr>self_client := self_client s1, self_use_async := self_use_async s1\<rparr>"
    using validate_client_frame [OF vc] .
  define rt where "rt = AList.delete ''__merge__'' (AList.update ''messages'' messages kwargs)"
  have rtm: "dict_get rt ''messages'' = messages"
    by (simp add: rt_def dict_get_def delete_conv' update_conv')
  consider (early) "self1 = s1" "h1 = h"
    | (merge_failed) fl err where "self1 = s1"
        "merge_parameters valid s1 h rt fl = (Inl err, h1)"
    | (called) fl p h0 where "merge_parameters valid s1 h rt fl = (Inr p, h0)"
        "call_api s1 h0 (params_model p) p return_usage return_cost = (res, self1, h1)"
    using run vc unfolding run_body_def Let_def rt_def [symmetric]
    by (auto split: option.splits prod.splits sum.splits)
  then have core: "self1 = s1 \<and> length h \<le> length h1
        \<and> (\<forall>a < length h.
              h1 ! a = h ! a
            \<or> (VRef a \<in> set (message_refs h messages)
                \<and> (\<exists>ats t. h ! a = OObject ats
                       \<and> h1 ! a = OObject (AList.update ''role'' (VStr t) ats))))"
  proof cases
    case early
    then show ?thesis by simp
  next
    case merge_failed
    have t: "take (length h) h1 = h" using merge_parameters_store [OF merge_failed(2)] .
    have "length h \<le> length h1" using arg_cong [OF t, of length] by simp
    moreover have "\<forall>a < length h. h1 ! a = h ! a" using t by (metis nth_take)
    ultimately show ?thesis using merge_failed(1) by simp
  next
    case called
    have t: "take (length h) h0 = h" using merge_parameters_store [OF called(1)] .
    have len: "length h \<le> length h0" using arg_cong [OF t, of length] by simp
    have old: "\<forall>a < length h. h0 ! a = h ! a" using t by (metis nth_take)
    have pm: "params_messages p = messages"
      using merge_parameters_messages [OF called(1)] rtm by simp
    have refs: "message_refs h0 messages = message_refs h messages"
      using list_at_ext [OF t wf] by (simp add: message_refs_def)
    have c1: "self1 = s1" and l1: "length h1 = length h0"
      using call [OF called(2)] by simp_all
    have "\<forall>a < length h.
              h1 ! a = h ! a
            \<or> (VRef a \<in> set (message_refs h messages)
                \<and> (\<exists>ats t. h ! a = OObject ats
                       \<and> h1 ! a = OObject (AList.update ''role'' (VStr t) ats)))"
    proof (intro allI impI)
      fix a assume a: "a < length h"
      from call [OF called(2), of a]
      have "h1 ! a = h0 ! a
           \<or> (VRef a \<in> set (message_refs h0 (params_messages p)) \<and> a < length h0
               \<and> (\<exists>ats t. h0 ! a = OObject ats
                      \<and> h1 ! a = OObject (AList.update ''role'' (VStr t) ats)))"
        by simp
      then show "h1 ! a = h ! a
            \<or> (VRef a \<in> set (message_refs h messages)
                \<and> (\<exists>ats t. h ! a = OObject ats
                       \<and> h1 ! a = OObject (AList.update ''role'' (VStr t) ats)))"
        using old a pm refs by auto
    qed
    then show ?thesis using c1 l1 len by simp
  qed
  have fields: "self_model_name s1 = self_model_name self \<and> self_messages s1 = self_messages self
     \<and> self_tools s1 = self_tools self \<and> self_tool_choice s1 = self_tool_choice self
     \<and> self_reasoning_effort s1 = self_reasoning_effort self \<and> self_user s1 = self_user self"
    by (subst fr, simp)+
  show ?thesis using core fr fields by simp
qed

lemma decorated_call_keeps:
  assumes "decorated_call body track t0 t1 prepare transport c st m sm p ru rc = (r, c1, st1)"
  shows "c1 = c \<and> length st1 = length st
        \<and> (st1 ! a = st ! a
           \<or> (VRef a \<in> set (message_refs st (params_messages p)) \<and> a < length st
               \<and> (\<exists>ats t. st ! a = OObject ats
                      \<and> st1 ! a = OObject (AList.update ''role'' (VStr t) ats))))"
  using decorated_call_frame [OF assms] by blast

text \<open>
  Claim C10 says that every call leaves the client's stored messages unchanged.  The
  attribute \<^verbatim>\<open>messages\<close> of the client is never assigned by a call, but the message
  objects it refers to are changed when the caller passes them: the client below was
  created for \<^verbatim>\<open>gpt-4o\<close> and stores a list with one system message; \<^verbatim>\<open>run\<close> is given that
  same list and the model \<^verbatim>\<open>o1\<close>.  The call succeeds, and afterwards the stored message
  has the role \<^verbatim>\<open>developer\<close>.
\<close>

theorem run_rewrites_role_of_stored_message:
  "list_at [OObject [(''role'', VStr ''system''), (''content'', VStr ''Be brief.'')], OList [VRef 0]] (self_messages \<lparr>self_model_name = VStr ''gpt-4o'', self_messages = VRef 1,
              self_reasoning_effort = VNone, self_tools = VNone, self_tool_choice = VNone,
              self_user = VNone, self_use_async = False, self_client = ()\<rparr>) = Some [VRef 0]
   \<and> role_of [OObject [(''role'', VStr ''system''), (''content'', VStr ''Be brief.'')], OList [VRef 0]] (VRef 0) = Some (VStr ''system'')
   \<and> fst (run (\<lambda>_. Inr ()) (\<lambda>_ _. True)
          (openai_call_api_sync (\<lambda>_ _. ()) 0 1 (\<lambda>_ _ _ _ _. Inr ())
             (\<lambda>_. Returned \<lparr>choices = [\<lparr>content = Some ''ok'', parsed = None :: unit option\<rparr>], usage = None\<rparr>))
          \<lparr>self_model_name = VStr ''gpt-4o'', self_messages = VRef 1,
              self_reasoning_effort = VNone, self_tools = VNone, self_tool_choice = VNone,
              self_user = VNone, self_use_async = False, self_client = ()\<rparr>
          [OObject [(''role'', VStr ''system''), (''content'', VStr ''Be brief.'')], OList [VRef 0]]
          (VRef 1) False False [(''model'', VStr ''o1'')]) = Inr (\<lparr>choices = [\<lparr>content = Some ''ok'', parsed = None :: unit option\<rparr>], usage = None\<rparr>, None, None)
   \<and> self_messages (fst (snd (run (\<lambda>_. Inr ()) (\<lambda>_ _. True)
          (openai_call_api_sync (\<lambda>_ _. ()) 0 1 (\<lambda>_ _ _ _ _. Inr ())
             (\<lambda>_. Returned \<lparr>choices = [\<lparr>content = Some ''ok'', parsed = None :: unit option\<rparr>], usage = None\<rparr>))
          \<lparr>self_model_name = VStr ''gpt-4o'', self_messages = VRef 1,
              self_reasoning_effort = VNone, self_tools = VNone, self_tool_choice = VNone,
              self_user = VNone, self_use_async = False, self_client = ()\<rparr>
          [OObject [(''role'', VStr ''system''), (''content'', VStr ''Be brief.'')], OList [VRef 0]]
          (VRef 1) False False [(''model'', VStr ''o1'')]))) = VRef 1
   \<and> list_at (snd (snd (run (\<lambda>_. Inr ()) (\<lambda>_ _. True)
          (openai_call_api_sync (\<lambda>_ _. ()) 0 1 (\<lambda>_ _ _ _ _. Inr ())
             (\<lambda>_. Returned \<lparr>choices = [\<lparr>content = Some ''ok'', parsed = None :: unit option\<rparr>], usage = None\<rparr>))
          \<lparr>self_model_name = VStr ''gpt-4o'', self_messages = VRef 1,
              self_reasoning_effort = VNone, self_tools = VNone, self_tool_choice = VNone,
              self_user = VNone, self_use_async = False, self_client = ()\<rparr>
          [OObject [(''role'', VStr ''system''), (''content'', VStr ''Be brief.'')], OList [VRef 0]]
          (VRef 1) False False [(''model'', VStr ''o1'')]))) (VRef 1) = Some [VRef 0]
   \<and> role_of (snd (snd (run (\<lambda>_. Inr ()) (\<lambda>_ _. True)
          (openai_call_api_sync (\<lambda>_ _. ()) 0 1 (\<lambda>_ _ _ _ _. Inr ())
             (\<lambda>_. Returned \<lparr>choices = [\<lparr>content = Some ''ok'', parsed = None :: unit option\<rparr>], usage = None\<rparr>))
          \<lparr>self_model_name = VStr ''gpt-4o'', self_messages = VRef 1,
              self_reasoning_effort = VNone, self_tools = VNone, self_tool_choice = VNone,
              self_user = VNone, self_use_async = False, self_client = ()\<rparr>
          [OObject [(''role'', VStr ''system''), (''content'', VStr ''Be brief.'')], OList [VRef 0]]
          (VRef 1) False False [(''model'', VStr ''o1'')]))) (VRef 0) = Some (VStr ''developer'')"
  by (simp add: run_def run_body_def validate_client_def merge_parameters_def merged_dict_def
        merge_field_def default_value_def dict_get_def new_BaseLLMCallParams_def model_fields_def
        openai_call_api_sync_def decorated_call_def set_messages_in_store_def truthy_def
        message_refs_def list_at_def dict_at_def lookup_def count_roles_in_store_def role_of_def in_models_def
        DEVELOPER_MESSAGE_SUPPORTED_MODELS_def rewrite_role_def store_set_def wrapper_def
        call_api_sync_def process_response_def content_truthy_def model_text_def Let_def)

text \<open>
  Claim C10 (amended).  For each of \<^verbatim>\<open>run\<close>, \<^verbatim>\<open>run_async\<close>, \<^verbatim>\<open>run_structured\<close> and
  \<^verbatim>\<open>run_structured_async\<close> on the OpenAI client, whether the call returns or raises: the
  six stored defaults of the client hold the same values afterwards, and the client differs
  at most in its transport handle and its transport-mode flag; every object that existed
  before the call is the same afterwards (merging allocates new containers), except that a
  message object passed to this call may have its attribute \<^verbatim>\<open>role\<close> rewritten.  So the
  stored defaults are unchanged as far as they share no message object with the messages
  passed to the call.
\<close>

theorem run_changes_only_passed_messages:
  assumes "wf_val h messages"
    and "run init_client valid
           (openai_call_api_sync track_model_cost start_time end_time prepare transport)
           self h messages return_usage return_cost kwargs = (res, self1, h1)
       \<or> run_async init_client valid
           (openai_call_api_async track_model_cost start_time end_time prepare transport)
           self h messages return_usage return_cost kwargs = (res, self1, h1)
       \<or> run_structured init_client valid
           (openai_call_api_structured payload_truthy track_model_cost start_time end_time
              prepare transport)
           self h structured_model messages return_usage return_cost kwargs = (res, self1, h1)
       \<or> run_structured_async init_client valid
           (openai_call_api_structured_async payload_truthy track_model_cost start_time
              end_time prepare transport)
           self h structured_model messages return_usage return_cost kwargs = (res, self1, h1)"
  shows "self_model_name self1 = self_model_name self
        \<and> self_messages self1 = self_messages self
        \<and> self_tools self1 = self_tools self
        \<and> self_tool_choice self1 = self_tool_choice self
        \<and> self_reasoning_effort self1 = self_reasoning_effort self
        \<and> self_user self1 = self_user self
        \<and> self1 = self\<lparr>self_client := self_client self1, self_use_async := self_use_async self1\<rparr>
        \<and> length h \<le> length h1
        \<and> (\<forall>a < length h.
              h1 ! a = h ! a
            \<or> (VRef a \<in> set (message_refs h messages)
                \<and> (\<exists>ats t. h ! a = OObject ats
                       \<and> h1 ! a = OObject (AList.update ''role'' (VStr t) ats))))"
  using assms(2)
proof (elim disjE)
  assume "run init_client valid
           (openai_call_api_sync track_model_cost start_time end_time prepare transport)
           self h messages return_usage return_cost kwargs = (res, self1, h1)"
  then show ?thesis
    unfolding run_def openai_call_api_sync_def
    by (rule run_body_frame [OF assms(1) decorated_call_keeps, rotated])
next
  assume "run_async init_client valid
           (openai_call_api_async track_model_cost start_time end_time prepare transport)
           self h messages return_usage return_cost kwargs = (res, self1, h1)"
  then show ?thesis
    unfolding run_async_def openai_call_api_async_def
    by (rule run_body_frame [OF assms(1) decorated_call_keeps, rotated])
next
  assume "run_structured init_client valid
           (openai_call_api_structured payload_truthy track_model_cost start_time end_time
              prepare transport)
           self h structured_model messages return_usage return_cost kwargs = (res, self1, h1)"
  then show ?thesis
    unfolding run_structured_def openai_call_api_structured_def
    by (rule run_body_frame [OF assms(1) decorated_call_keeps, rotated])
next
  assume "run_structured_async init_client valid
           (openai_call_api_structured_async payload_truthy track_model_cost start_time
              end_time prepare transport)
           self h structured_model messages return_usage return_cost kwargs = (res, self1, h1)"
  then show ?thesis
    unfolding run_structured_async_def openai_call_api_structured_async_def
    by (rule run_body_frame [OF assms(1) decorated_call_keeps, rotated])
qed

theorem run_changes_only_passed_messages_witness:
  "wf_val [OObject [(''role'', VStr ''system''), (''content'', VStr ''Be brief.'')], OList [VRef 0],
           OObject [(''role'', VStr ''system''), (''content'', VStr ''Be kind.'')], OList [VRef 2]] (VRef 3)
   \<and> list_at [OObject [(''role'', VStr ''system''), (''content'', VStr ''Be brief.'')], OList [VRef 0],
           OObject [(''role'', VStr ''system''), (''content'', VStr ''Be kind.'')], OList [VRef 2]] (self_messages \<lparr>self_model_name = VStr ''gpt-4o'', self_messages = VRef 1,
              self_reasoning_effort = VNone, self_tools = VNone, self_tool_choice = VNone,
              self_user = VNone, self_use_async = False, self_client = ()\<rparr>) = Some [VRef 0]
   \<and> self_messages (fst (snd (run (\<lambda>_. Inr ()) (\<lambda>_ _. True)
          (openai_call_api_sync (\<lambda>_ _. ()) 0 1 (\<lambda>_ _ _ _ _. Inr ())
             (\<lambda>_. Returned \<lparr>choices = [\<lparr>content = Some ''ok'', parsed = None :: unit option\<rparr>], usage = None\<rparr>))
          \<lparr>self_model_name = VStr ''gpt-4o'', self_messages = VRef 1,
              self_reasoning_effort = VNone, self_tools = VNone, self_tool_choice = VNone,
              self_user = VNone, self_use_async = False, self_client = ()\<rparr>
          [OObject [(''role'', VStr ''system''), (''content'', VStr ''Be brief.'')], OList [VRef 0],
           OObject [(''role'', VStr ''system''), (''content'', VStr ''Be kind.'')], OList [VRef 2]]
          (VRef 3) False False [(''model'', VStr ''o1'')]))) = VRef 1
   \<and> snd (snd (run (\<lambda>_. Inr ()) (\<lambda>_ _. True)
          (openai_call_api_sync (\<lambda>_ _. ()) 0 1 (\<lambda>_ _ _ _ _. Inr ())
             (\<lambda>_. Returned \<lparr>choices = [\<lparr>content = Some ''ok'', parsed = None :: unit option\<rparr>], usage = None\<rparr>))
          \<lparr>self_model_name = VStr ''gpt-4o'', self_messages = VRef 1,
              self_reasoning_effort = VNone, self_tools = VNone, self_tool_choice = VNone,
              self_user = VNone, self_use_async = False, self_client = ()\<rparr>
          [OObject [(''role'', VStr ''system''), (''content'', VStr ''Be brief.'')], OList [VRef 0],
           OObject [(''role'', VStr ''system''), (''content'', VStr ''Be kind.'')], OList [VRef 2]]
          (VRef 3) False False [(''model'', VStr ''o1'')])) ! 1 = OList [VRef 0]
   \<and> snd (snd (run (\<lambda>_. Inr ()) (\<lambda>_ _. True)
          (openai_call_api_sync (\<lambda>_ _. ()) 0 1 (\<lambda>_ _ _ _ _. Inr ())
             (\<lambda>_. Returned \<lparr>choices = [\<lparr>content = Some ''ok'', parsed = None :: unit option\<rparr>], usage = None\<rparr>))
          \<lparr>self_model_name = VStr ''gpt-4o'', self_messages = VRef 1,
              self_reasoning_effort = VNone, self_tools = VNone, self_tool_choice = VNone,
              self_user = VNone, self_use_async = False, self_client = ()\<rparr>
          [OObject [(''role'', VStr ''system''), (''content'', VStr ''Be brief.'')], OList [VRef 0],
           OObject [(''role'', VStr ''system''), (''content'', VStr ''Be kind.'')], OList [VRef 2]]
          (VRef 3) False False [(''model'', VStr ''o1'')])) ! 0
       = OObject [(''role'', VStr ''system''), (''content'', VStr ''Be brief.'')]"
proof -
  let ?R = "run (\<lambda>_. Inr ()) (\<lambda>_ _. True)
          (openai_call_api_sync (\<lambda>_ _. ()) 0 1 (\<lambda>_ _ _ _ _. Inr ())
             (\<lambda>_. Returned \<lparr>choices = [\<lparr>content = Some ''ok'', parsed = None :: unit option\<rparr>], usage = None\<rparr>))
          \<lparr>self_model_name = VStr ''gpt-4o'', self_messages = VRef 1,
              self_reasoning_effort = VNone, self_tools = VNone, self_tool_choice = VNone,
              self_user = VNone, self_use_async = False, self_client = ()\<rparr>
          [OObject [(''role'', VStr ''system''), (''content'', VStr ''Be brief.'')], OList [VRef 0],
           OObject [(''role'', VStr ''system''), (''content'', VStr ''Be kind.'')], OList [VRef 2]]
          (VRef 3) False False [(''model'', VStr ''o1'')]"
  let ?H = "[OObject [(''role'', VStr ''system''), (''content'', VStr ''Be brief.'')], OList [VRef 0],
           OObject [(''role'', VStr ''system''), (''content'', VStr ''Be kind.'')], OList [VRef 2]]"
  have wf: "wf_val ?H (VRef 3)" by (simp add: wf_val_def)
  have r: "?R = (fst ?R, fst (snd ?R), snd (snd ?R))" by simp
  have fr: "self_messages (fst (snd ?R)) = self_messages \<lparr>self_model_name = VStr ''gpt-4o'', self_messages = VRef 1,
              self_reasoning_effort = VNone, self_tools = VNone, self_tool_choice = VNone,
              self_user = VNone, self_use_async = False, self_client = ()\<rparr>
     \<and> (\<forall>a < length ?H. snd (snd ?R) ! a = ?H ! a
            \<or> (VRef a \<in> set (message_refs ?H (VRef 3))
                \<and> (\<exists>ats t. ?H ! a = OObject ats
                       \<and> snd (snd ?R) ! a = OObject (AList.update ''role'' (VStr t) ats))))"
    using run_changes_only_passed_messages [OF wf disjI1, OF r] by blast
  have refs: "message_refs ?H (VRef 3) = [VRef 2]"
    by (simp add: message_refs_def list_at_def lookup_def)
  from fr have a0: "snd (snd ?R) ! 0 = ?H ! 0 \<or> VRef 0 \<in> set (message_refs ?H (VRef 3))"
    by (elim conjE allE [of _ 0]) auto
  from fr have a1: "snd (snd ?R) ! 1 = ?H ! 1 \<or> VRef 1 \<in> set (message_refs ?H (VRef 3))"
    by (elim conjE allE [of _ 1]) auto
  have l: "list_at ?H (self_messages \<lparr>self_model_name = VStr ''gpt-4o'', self_messages = VRef 1,
              self_reasoning_effort = VNone, self_tools = VNone, self_tool_choice = VNone,
              self_user = VNone, self_use_async = False, self_client = ()\<rparr>) = Some [VRef 0]"
    by (simp add: list_at_def lookup_def)
  from fr have m: "self_messages (fst (snd ?R)) = VRef 1" by simp
  from a0 refs have "snd (snd ?R) ! 0 = ?H ! 0" by simp
  moreover from a1 refs have "snd (snd ?R) ! 1 = ?H ! 1" by simp
  ultimately show ?thesis using wf l m by simp
qed

end
